theory Spec2Isabelle
  imports Complex_Main
begin

section \<open>Floating-point values with their special values\<close>

text \<open>
  The channel scripts compute with numpy arrays of IEEE doubles.  A value is modelled as
  a finite real, plus or minus infinity, or NaN.  Arithmetic on finite values is exact
  (no rounding, no overflow); a division by zero and every operation on a special value
  give what IEEE 754 gives, so that a singular denominator is visible in the model as
  \<open>PInf\<close>, \<open>NInf\<close> or \<open>NaN\<close> rather than hidden by HOL's \<open>x / 0 = 0\<close>.
  The zero of the model is the positive zero.
\<close>

datatype fval = Fin real | PInf | NInf | NaN

fun is_finite :: "fval \<Rightarrow> bool" where
  "is_finite (Fin a) = True"
| "is_finite PInf = False"
| "is_finite NInf = False"
| "is_finite NaN = False"

fun fadd :: "fval \<Rightarrow> fval \<Rightarrow> fval" where
  "fadd NaN y = NaN"
| "fadd x NaN = NaN"
| "fadd (Fin a) (Fin b) = Fin (a + b)"
| "fadd PInf NInf = NaN"
| "fadd NInf PInf = NaN"
| "fadd PInf y = PInf"
| "fadd x PInf = PInf"
| "fadd NInf y = NInf"
| "fadd x NInf = NInf"

fun fneg :: "fval \<Rightarrow> fval" where
  "fneg (Fin a) = Fin (- a)"
| "fneg PInf = NInf"
| "fneg NInf = PInf"
| "fneg NaN = NaN"

fun fmul :: "fval \<Rightarrow> fval \<Rightarrow> fval" where
  "fmul NaN y = NaN"
| "fmul x NaN = NaN"
| "fmul (Fin a) (Fin b) = Fin (a * b)"
| "fmul (Fin a) PInf = (if a = 0 then NaN else if 0 < a then PInf else NInf)"
| "fmul (Fin a) NInf = (if a = 0 then NaN else if 0 < a then NInf else PInf)"
| "fmul PInf (Fin b) = (if b = 0 then NaN else if 0 < b then PInf else NInf)"
| "fmul NInf (Fin b) = (if b = 0 then NaN else if 0 < b then NInf else PInf)"
| "fmul PInf PInf = PInf"
| "fmul PInf NInf = NInf"
| "fmul NInf PInf = NInf"
| "fmul NInf NInf = PInf"

fun fdiv :: "fval \<Rightarrow> fval \<Rightarrow> fval" where
  "fdiv NaN y = NaN"
| "fdiv x NaN = NaN"
| "fdiv (Fin a) (Fin b) =
     (if b = 0 then (if a = 0 then NaN else if 0 < a then PInf else NInf)
      else Fin (a / b))"
| "fdiv (Fin a) PInf = Fin 0"
| "fdiv (Fin a) NInf = Fin 0"
| "fdiv PInf (Fin b) = (if 0 \<le> b then PInf else NInf)"
| "fdiv NInf (Fin b) = (if 0 \<le> b then NInf else PInf)"
| "fdiv PInf PInf = NaN"
| "fdiv PInf NInf = NaN"
| "fdiv NInf PInf = NaN"
| "fdiv NInf NInf = NaN"

instantiation fval :: "{plus, minus, uminus, times, inverse}"
begin

definition plus_fval :: "fval \<Rightarrow> fval \<Rightarrow> fval" where
  "plus_fval x y = fadd x y"

definition uminus_fval :: "fval \<Rightarrow> fval" where
  "uminus_fval x = fneg x"

definition minus_fval :: "fval \<Rightarrow> fval \<Rightarrow> fval" where
  "minus_fval x y = fadd x (fneg y)"

definition times_fval :: "fval \<Rightarrow> fval \<Rightarrow> fval" where
  "times_fval x y = fmul x y"

definition divide_fval :: "fval \<Rightarrow> fval \<Rightarrow> fval" where
  "divide_fval x y = fdiv x y"

definition inverse_fval :: "fval \<Rightarrow> fval" where
  "inverse_fval x = fdiv (Fin 1) x"

instance ..

end

text \<open>\<open>numpy.exp\<close>.\<close>

fun fexp :: "fval \<Rightarrow> fval" where
  "fexp (Fin a) = Fin (exp a)"
| "fexp PInf = PInf"
| "fexp NInf = Fin 0"
| "fexp NaN = NaN"

text \<open>Comparisons: every comparison with NaN is false.\<close>

fun fless :: "fval \<Rightarrow> fval \<Rightarrow> bool" where
  "fless NaN y = False"
| "fless x NaN = False"
| "fless (Fin a) (Fin b) = (a < b)"
| "fless (Fin a) PInf = True"
| "fless NInf (Fin b) = True"
| "fless NInf PInf = True"
| "fless x y = False"

fun feq :: "fval \<Rightarrow> fval \<Rightarrow> bool" where
  "feq (Fin a) (Fin b) = (a = b)"
| "feq PInf PInf = True"
| "feq NInf NInf = True"
| "feq x y = False"

text \<open>\<open>numpy.maximum\<close>: the larger value, NaN if either argument is NaN.\<close>

fun fmaximum :: "fval \<Rightarrow> fval \<Rightarrow> fval" where
  "fmaximum NaN y = NaN"
| "fmaximum x NaN = NaN"
| "fmaximum x y = (if fless x y then y else x)"

text \<open>
  \<open>numpy.where(c, a, b)\<close> at one element.  Both branches are computed before the
  selection (numpy evaluates its arguments eagerly), which the model keeps: the branch
  not taken is evaluated and discarded.
\<close>

definition fwhere :: "bool \<Rightarrow> fval \<Rightarrow> fval \<Rightarrow> fval" where
  "fwhere c a b = (if c then a else b)"

section \<open>granule\_cell\_hhchannel.py: the module-level grid and Q10 factor\<close>

definition vmin :: real where "vmin = - 150 / 1000"
definition vmax :: real where "vmax = 100 / 1000"
definition vdivs :: nat where "vdivs = 640"

text \<open>
  \<open>numpy.linspace(start, stop, num)\<close>: \<open>num\<close> samples \<open>start + i * step\<close> with
  \<open>step = (stop - start) / (num - 1)\<close>.
\<close>

definition linspace :: "real \<Rightarrow> real \<Rightarrow> nat \<Rightarrow> fval list" where
  "linspace start stop num =
     map (\<lambda>i. Fin (start + real i * ((stop - start) / real (num - 1)))) [0..<num]"

text \<open>The module's array \<open>v = np.linspace(vmin, vmax, vdivs + 1)\<close>.\<close>

definition v_grid :: "fval list" where
  "v_grid = linspace vmin vmax (vdivs + 1)"

definition temp_exp :: real where "temp_exp = 17.350264793"
definition temp :: real where "temp = 32"
definition Q10 :: real where "Q10 = 3"

definition q10_mul :: real where
  "q10_mul = Q10 powr (0.1 * (temp - temp_exp))"

definition v_offset :: real where "v_offset = 10 / 1000"

text \<open>The module's array \<open>V = v - v_offset\<close>.\<close>

definition V_grid :: "fval list" where
  "V_grid = map (\<lambda>x. x - Fin v_offset) v_grid"

text \<open>
  A gate of a tabulated channel: the two tables and the grid metadata the scripts set
  (\<open>min\<close>, \<open>max\<close>, \<open>divs\<close>, \<open>useInterpolation\<close>).
\<close>

record hhgate =
  tableA :: "fval list"
  tableB :: "fval list"
  gate_min :: real
  gate_max :: real
  divs :: nat
  useInterpolation :: bool

record hhchannel =
  Xpower :: nat
  Ypower :: nat
  Ek :: real
  gateX :: hhgate
  gateY :: hhgate

text \<open>
  The steady state and the time constant a gate's tables encode at grid index \<open>i\<close>:
  \<open>xinf = tableA / tableB\<close> and \<open>tau = 1 / tableB\<close>, the quotients \<open>plot_hhgate\<close>
  saves and plots.
\<close>

definition table_xinf :: "hhgate \<Rightarrow> nat \<Rightarrow> fval" where
  "table_xinf g i = tableA g ! i / tableB g ! i"

definition table_tau :: "hhgate \<Rightarrow> nat \<Rightarrow> fval" where
  "table_tau g i = Fin 1 / tableB g ! i"

section \<open>make\_channel\_KDR\<close>

text \<open>
  The functions of the module read the global \<open>q10_mul\<close>; in the model it is the
  parameter \<open>q\<close>, and the program is the instance \<open>q = q10_mul\<close>.  Each array
  expression of the source is elementwise, so it is the map of a function of one
  sample \<open>V\<close> over \<open>V_grid\<close>.
\<close>

definition KDR_alpha_m :: "real \<Rightarrow> fval \<Rightarrow> fval" where
  "KDR_alpha_m q V = Fin q * Fin 170 * fexp (Fin 73 * (V - Fin (- 38 / 1000)))"

definition KDR_beta_m :: "real \<Rightarrow> fval \<Rightarrow> fval" where
  "KDR_beta_m q V = Fin q * Fin 170 * fexp (Fin (- 18) * (V - Fin (- 38 / 1000)))"

definition KDR_alpha_h :: "real \<Rightarrow> fval \<Rightarrow> fval" where
  "KDR_alpha_h q V =
     fwhere (fless (Fin (- 0.046)) V) (Fin 0.76)
       (Fin 0.7 + Fin 0.065 * fexp (Fin (- 80) * (V - Fin (- 46 / 1000)))) * Fin q"

definition KDR_beta_h :: "real \<Rightarrow> fval \<Rightarrow> fval" where
  "KDR_beta_h q V =
     Fin 1.1 / (Fin 1 + fexp (Fin (- 80.7) * (V - Fin (- 0.044)))) * Fin q"

definition make_channel_KDR :: "real \<Rightarrow> hhchannel" where
  "make_channel_KDR q =
     (let alpha_m = map (KDR_alpha_m q) V_grid;
          beta_m = map (KDR_beta_m q) V_grid;
          alpha_h = map (KDR_alpha_h q) V_grid;
          beta_h = map (KDR_beta_h q) V_grid
      in \<lparr> Xpower = 4, Ypower = 1, Ek = - 90 / 1000,
           gateX = \<lparr> tableA = alpha_m, tableB = map2 (+) alpha_m beta_m,
                     gate_min = vmin, gate_max = vmax, divs = vdivs,
                     useInterpolation = True \<rparr>,
           gateY = \<lparr> tableA = alpha_h, tableB = map2 (+) alpha_h beta_h,
                     gate_min = vmin, gate_max = vmax, divs = vdivs,
                     useInterpolation = True \<rparr> \<rparr>)"

section \<open>make\_channel\_CaHVA\<close>

definition CaHVA_alpha_m :: "real \<Rightarrow> fval \<Rightarrow> fval" where
  "CaHVA_alpha_m q V =
     (Fin 1600 / (Fin 1 + fexp (Fin (- 72) * (V - Fin (5 / 1000))))) * Fin q"

definition CaHVA_x :: "fval \<Rightarrow> fval" where
  "CaHVA_x V = (V - Fin (- 8.9 / 1000)) / Fin (- 0.005)"

definition CaHVA_beta_m :: "real \<Rightarrow> fval \<Rightarrow> fval" where
  "CaHVA_beta_m q V =
     (let x = CaHVA_x V in Fin 100 * x / (Fin 1 - fexp (- x)) * Fin q)"

text \<open>
  \<open>alpha_h\<close> and \<open>beta_h\<close> are computed for every sample and then overwritten where
  \<open>V < -0.060\<close> (\<open>alpha_h[V < -0.060] = 5.0 * q10_mul\<close>, \<open>beta_h[V < -0.060] = 0.0\<close>).
\<close>

definition CaHVA_alpha_h :: "real \<Rightarrow> fval \<Rightarrow> fval" where
  "CaHVA_alpha_h q V =
     (let alpha_h = Fin 5 * fexp (Fin (- 50) * (V - Fin (- 0.06))) * Fin q
      in if fless V (Fin (- 0.060)) then Fin 5.0 * Fin q else alpha_h)"

definition CaHVA_beta_h :: "real \<Rightarrow> fval \<Rightarrow> fval" where
  "CaHVA_beta_h q V =
     (let beta_h = (Fin 5 - Fin 5 * fexp (Fin (- 50) * (V - Fin (- 0.060)))) * Fin q
      in if fless V (Fin (- 0.060)) then Fin 0.0 else beta_h)"

definition make_channel_CaHVA :: "real \<Rightarrow> hhchannel" where
  "make_channel_CaHVA q =
     (let alpha_m = map (CaHVA_alpha_m q) V_grid;
          beta_m = map (CaHVA_beta_m q) V_grid;
          alpha_h = map (CaHVA_alpha_h q) V_grid;
          beta_h = map (CaHVA_beta_h q) V_grid
      in \<lparr> Xpower = 2, Ypower = 1, Ek = 80 / 1000,
           gateX = \<lparr> tableA = alpha_m, tableB = map2 (+) alpha_m beta_m,
                     gate_min = vmin, gate_max = vmax, divs = vdivs,
                     useInterpolation = True \<rparr>,
           gateY = \<lparr> tableA = alpha_h, tableB = map2 (+) alpha_h beta_h,
                     gate_min = vmin, gate_max = vmax, divs = vdivs,
                     useInterpolation = True \<rparr> \<rparr>)"

section \<open>make\_channel\_NaF (granule\_cell\_hhchannel.py)\<close>

definition NaF_alpha_m :: "fval \<Rightarrow> fval" where
  "NaF_alpha_m V = Fin 1500 * fexp (Fin 81 * (V - Fin (- 39 / 1000)))"

definition NaF_beta_m :: "fval \<Rightarrow> fval" where
  "NaF_beta_m V = Fin 1500 * fexp (Fin (- 66) * (V - Fin (- 39 / 1000)))"

text \<open>
  \<open>tau_m = np.where(alpha_m + beta_m == 0, 0, np.maximum(1 / (alpha_m + beta_m), 5e-5))
  / q10_mul\<close>, at one sample, as a function of the sample's \<open>alpha_m\<close> and \<open>beta_m\<close>.
\<close>

definition NaF_tau_m :: "real \<Rightarrow> fval \<Rightarrow> fval \<Rightarrow> fval" where
  "NaF_tau_m q alpha_m beta_m =
     fwhere (feq (alpha_m + beta_m) (Fin 0)) (Fin 0)
       (fmaximum (Fin 1 / (alpha_m + beta_m)) (Fin (5 / 100000))) / Fin q"

definition NaF_inf_m :: "fval \<Rightarrow> fval \<Rightarrow> fval" where
  "NaF_inf_m alpha_m beta_m = alpha_m / (alpha_m + beta_m)"

definition NaF_alpha_h :: "fval \<Rightarrow> fval" where
  "NaF_alpha_h V = Fin 120 * fexp (Fin (- 89) * (V - Fin (- 0.05)))"

definition NaF_beta_h :: "fval \<Rightarrow> fval" where
  "NaF_beta_h V = Fin 120 * fexp (Fin 89 * (V - Fin (- 0.05)))"

definition NaF_inf_h :: "fval \<Rightarrow> fval \<Rightarrow> fval" where
  "NaF_inf_h alpha_h beta_h = alpha_h / (alpha_h + beta_h)"

definition NaF_tau_h :: "real \<Rightarrow> fval \<Rightarrow> fval \<Rightarrow> fval" where
  "NaF_tau_h q alpha_h beta_h =
     fwhere (feq (alpha_h + beta_h) (Fin 0)) (Fin 0)
       (fmaximum (Fin 1 / (alpha_h + beta_h)) (Fin (2.25 / 10000))) / Fin q"

definition make_channel_NaF :: "real \<Rightarrow> hhchannel" where
  "make_channel_NaF q =
     (let alpha_m = map NaF_alpha_m V_grid;
          beta_m = map NaF_beta_m V_grid;
          tau_m = map2 (NaF_tau_m q) alpha_m beta_m;
          inf_m = map2 NaF_inf_m alpha_m beta_m;
          alpha_h = map NaF_alpha_h V_grid;
          beta_h = map NaF_beta_h V_grid;
          inf_h = map2 NaF_inf_h alpha_h beta_h;
          tau_h = map2 (NaF_tau_h q) alpha_h beta_h
      in \<lparr> Xpower = 3, Ypower = 1, Ek = 55 / 1000,
           gateX = \<lparr> tableA = map2 (/) inf_m tau_m,
                     tableB = map (\<lambda>t. Fin 1 / t) tau_m,
                     gate_min = vmin, gate_max = vmax, divs = vdivs,
                     useInterpolation = True \<rparr>,
           gateY = \<lparr> tableA = map2 (/) inf_h tau_h,
                     tableB = map (\<lambda>t. Fin 1 / t) tau_h,
                     gate_min = vmin, gate_max = vmax, divs = vdivs,
                     useInterpolation = True \<rparr> \<rparr>)"

section \<open>plot\_hhgate: the diagnostic export\<close>

text \<open>
  \<open>plot_hhgate\<close> writes four two-column files (\<open>np.savetxt\<close>), each pairing the grid
  \<open>v\<close> with one derived column.  The model returns the grid and the four columns.
\<close>

record hhgate_export =
  v_dat :: "fval list"
  alpha_dat :: "fval list"
  beta_dat :: "fval list"
  tau_dat :: "fval list"
  inf_dat :: "fval list"

definition plot_hhgate :: "hhgate \<Rightarrow> hhgate_export" where
  "plot_hhgate hhgate =
     (let alpha = tableA hhgate;
          beta = map2 (-) (tableB hhgate) (tableA hhgate);
          v = linspace (gate_min hhgate) (gate_max hhgate) (divs hhgate + 1)
      in \<lparr> v_dat = v, alpha_dat = alpha, beta_dat = beta,
           tau_dat = map (\<lambda>b. Fin 1 / b) (tableB hhgate),
           inf_dat = map2 (/) (tableA hhgate) (tableB hhgate) \<rparr>)"

section \<open>granule\_cell\_hhchannel2.py: rate expressions\<close>

text \<open>
  This variant hands the engine expression strings.  \<open>~(x := e, ..., body)\<close> binds
  names in sequence and has the value of its last expression; \<open>c ? a : b\<close> evaluates
  only the branch it selects; \<open>max\<close> is the larger of two values.  An expression is
  modelled as the function of \<open>v\<close> it denotes, the f-string's \<open>{Q10_MUL}\<close> being the
  parameter \<open>Q\<close>.
\<close>

definition TEMP_0 :: real where "TEMP_0 = 17.35"
definition TEMP_1 :: real where "TEMP_1 = 32"

definition Q10_MUL :: real where
  "Q10_MUL = 3 powr (0.1 * (TEMP_1 - TEMP_0))"

definition vdivs2 :: nat where "vdivs2 = 1000"

definition expr_max :: "fval \<Rightarrow> fval \<Rightarrow> fval" where
  "expr_max a b = (if fless a b then b else a)"

definition NaF2_alpha_m :: "real \<Rightarrow> fval \<Rightarrow> fval" where
  "NaF2_alpha_m Q v =
     Fin Q * Fin 1500 * fexp (Fin 81 * ((v - Fin (10 / 1000)) - Fin (- 39 / 1000)))"

definition NaF2_beta_m :: "real \<Rightarrow> fval \<Rightarrow> fval" where
  "NaF2_beta_m Q v =
     Fin Q * Fin 1500 * fexp (Fin (- 66) * ((v - Fin (10 / 1000)) - Fin (- 39 / 1000)))"

text \<open>
  The tail of \<open>tauExpr\<close> after its bindings of \<open>alpha\<close> and \<open>beta\<close>:
  \<open>tau := alpha + beta == 0 ? 0 : 1 / (alpha + beta), max(tau, 1e-5)\<close>.
\<close>

definition NaF2_m_tau_of :: "fval \<Rightarrow> fval \<Rightarrow> fval" where
  "NaF2_m_tau_of alpha beta =
     (let tau = (if feq (alpha + beta) (Fin 0) then Fin 0 else Fin 1 / (alpha + beta))
      in expr_max tau (Fin (1 / 100000)))"

definition NaF2_m_tauExpr :: "real \<Rightarrow> fval \<Rightarrow> fval" where
  "NaF2_m_tauExpr Q v =
     (let alpha = NaF2_alpha_m Q v;
          beta = NaF2_beta_m Q v
      in NaF2_m_tau_of alpha beta)"

definition NaF2_m_infExpr :: "real \<Rightarrow> fval \<Rightarrow> fval" where
  "NaF2_m_infExpr Q v =
     (let alpha = NaF2_alpha_m Q v;
          beta = NaF2_beta_m Q v
      in alpha / (alpha + beta))"

definition NaF2_alpha_h :: "real \<Rightarrow> fval \<Rightarrow> fval" where
  "NaF2_alpha_h Q v =
     Fin Q * Fin 120 * fexp (Fin (- 89) * ((v - Fin (10 / 1000)) - Fin (- 0.05)))"

definition NaF2_beta_h :: "real \<Rightarrow> fval \<Rightarrow> fval" where
  "NaF2_beta_h Q v =
     Fin Q * Fin 120 * fexp (Fin 89 * ((v - Fin (10 / 1000)) - Fin (- 0.05)))"

definition NaF2_h_tau_of :: "fval \<Rightarrow> fval \<Rightarrow> fval" where
  "NaF2_h_tau_of alpha beta =
     (let tau = (if feq (alpha + beta) (Fin 0) then Fin 0 else Fin 1 / (alpha + beta))
      in expr_max tau (Fin (0.045 / 1000)))"

definition NaF2_h_tauExpr :: "real \<Rightarrow> fval \<Rightarrow> fval" where
  "NaF2_h_tauExpr Q v =
     (let alpha = NaF2_alpha_h Q v;
          beta = NaF2_beta_h Q v
      in NaF2_h_tau_of alpha beta)"

definition NaF2_h_infExpr :: "real \<Rightarrow> fval \<Rightarrow> fval" where
  "NaF2_h_infExpr Q v =
     (let alpha = NaF2_alpha_h Q v;
          beta = NaF2_beta_h Q v
      in alpha / (alpha + beta))"

text \<open>
  Modelled from the spec: the engine's table fill (\<open>gate.tabFillExpr()\<close>) is not part of
  the repository.  The spec's TableBuilder samples a tau/inf gate at \<open>divs + 1\<close>
  uniformly spaced points and stores \<open>A = inf / tau\<close>, \<open>B = 1 / tau\<close>.
\<close>

definition tabFillExpr :: "(fval \<Rightarrow> fval) \<Rightarrow> (fval \<Rightarrow> fval) \<Rightarrow> real \<Rightarrow> real \<Rightarrow> nat \<Rightarrow> hhgate" where
  "tabFillExpr tauExpr infExpr lo hi n =
     (let grid = linspace lo hi (n + 1)
      in \<lparr> tableA = map (\<lambda>v. infExpr v / tauExpr v) grid,
           tableB = map (\<lambda>v. Fin 1 / tauExpr v) grid,
           gate_min = lo, gate_max = hi, divs = n, useInterpolation = True \<rparr>)"

definition make_channel_NaF2 :: "real \<Rightarrow> hhchannel" where
  "make_channel_NaF2 Q =
     \<lparr> Xpower = 3, Ypower = 1, Ek = 55 / 1000,
       gateX = tabFillExpr (NaF2_m_tauExpr Q) (NaF2_m_infExpr Q) vmin vmax vdivs2,
       gateY = tabFillExpr (NaF2_h_tauExpr Q) (NaF2_h_infExpr Q) vmin vmax vdivs2 \<rparr>"

text \<open>\<open>make_channel_KA\<close> of granule\_cell\_hhchannel2.py: the four expressions.\<close>

definition KA_m_tau :: "fval \<Rightarrow> fval" where
  "KA_m_tau v =
     Fin (0.41 / 1000) * fexp (- ((v - Fin (10 / 1000)) - Fin (- 43.5 / 1000)) / Fin 0.0428)
     + Fin (0.167 / 1000)"

definition KA_m_tauExpr :: "real \<Rightarrow> fval \<Rightarrow> fval" where
  "KA_m_tauExpr Q v = (let tau = KA_m_tau v in Fin Q * tau)"

definition KA_m_infExpr :: "fval \<Rightarrow> fval" where
  "KA_m_infExpr v =
     Fin 1 / (Fin 1 + fexp (- ((v - Fin (10 / 1000)) - Fin (- 46.7 / 1000)) / Fin 19.8))"

definition KA_h_tau :: "fval \<Rightarrow> fval" where
  "KA_h_tau v =
     Fin 0.001 * (Fin 10.8 + Fin 30 * (v - Fin (10 / 1000)) +
       Fin 1 / (Fin 57.9 * fexp ((v - Fin (10 / 1000)) * Fin 127) +
                Fin (134 / 1000000) * fexp (Fin (- 59) * (v - Fin (10 / 1000)))))"

definition KA_h_tauExpr :: "real \<Rightarrow> fval \<Rightarrow> fval" where
  "KA_h_tauExpr Q v = (let tau = KA_h_tau v in Fin Q * tau)"

definition KA_h_infExpr :: "fval \<Rightarrow> fval" where
  "KA_h_infExpr v =
     Fin 1 / (Fin 1 + fexp (- ((v - Fin (10 / 1000)) - Fin (- 78.8 / 1000)) / Fin 0.0084))"

section \<open>granule\_cell.py: the KDr m-gate\<close>

text \<open>
  \<open>mgate.alpha = '170 * exp(73 * ((v - 10e-3) - (-38e-3)))'\<close> and
  \<open>mgate.beta = '170 * exp(-18 * ((v - 10e-3) - (-38e-3)))'\<close>.
\<close>

definition KDr_alpha :: "fval \<Rightarrow> fval" where
  "KDr_alpha v = Fin 170 * fexp (Fin 73 * ((v - Fin (10 / 1000)) - Fin (- 38 / 1000)))"

definition KDr_beta :: "fval \<Rightarrow> fval" where
  "KDr_beta v = Fin 170 * fexp (Fin (- 18) * ((v - Fin (10 / 1000)) - Fin (- 38 / 1000)))"

text \<open>
  Modelled from the spec: the engine evaluates an alpha/beta gate as \<open>A = alpha\<close>,
  \<open>B = alpha + beta\<close>, with steady state \<open>xinf = A / B\<close> and time constant
  \<open>tau = 1 / B\<close> (the engine's code is not part of the repository).
\<close>

definition gate_xinf :: "(fval \<Rightarrow> fval) \<Rightarrow> (fval \<Rightarrow> fval) \<Rightarrow> fval \<Rightarrow> fval" where
  "gate_xinf alpha beta v = (let A = alpha v; B = alpha v + beta v in A / B)"

definition gate_tau :: "(fval \<Rightarrow> fval) \<Rightarrow> (fval \<Rightarrow> fval) \<Rightarrow> fval \<Rightarrow> fval" where
  "gate_tau alpha beta v = (let B = alpha v + beta v in Fin 1 / B)"

section \<open>The gate state update\<close>

text \<open>
  Modelled from the spec: the GateStateIntegrator belongs to the simulation engine and
  is not part of the repository.  The spec gives the step as
  \<open>xinf = A(v) / B(v)\<close>, \<open>x(t + dt) = xinf + (x(t) - xinf) * exp(-dt * B(v))\<close>, and
  holds \<open>x\<close> for the step when \<open>B(v) == 0\<close>.  The step is stated over the reals.
\<close>

definition gate_step :: "real \<Rightarrow> real \<Rightarrow> real \<Rightarrow> real \<Rightarrow> real" where
  "gate_step A B dt x =
     (if B = 0 then x
      else (let xinf = A / B in xinf + (x - xinf) * exp (- dt * B)))"

section \<open>traub\_2005/mus/cells.py\<close>

text \<open>
  A spec is a Python dict from strings to strings, and \<open>cell_spec\<close> a dict of specs.
  Both are association lists read with \<open>map_of\<close> (\<open>dict.get\<close>).
\<close>

type_synonym spec = "(string \<times> string) list"

definition cell_spec :: "(string \<times> spec) list" where
  "cell_spec =
     [(''DeepAxoaxonic'', [(''proto'', ''DeepAxoaxonic.p'')]),
      (''DeepBasket'', [(''proto'', ''DeepBasket.p'')]),
      (''DeepLTS'', [(''proto'', ''DeepLTS.p''), (''levels'', ''DeepLTS.levels'')]),
      (''NontuftedRS'', [(''proto'', ''NontuftedRS.p''),
                         (''depths'', ''NontuftedRS.depths''),
                         (''levels'', ''NontuftedRS.levels'')]),
      (''nRT'', [(''proto'', ''nRT.p'')]),
      (''SpinyStellate'', [(''proto'', ''SpinyStellate.p''),
                           (''levels'', ''SpinyStellate.levels'')]),
      (''SupAxoaxonic'', [(''proto'', ''SupAxoaxonic.p''),
                          (''levels'', ''SupAxoaxonic.levels'')]),
      (''SupBasket'', [(''proto'', ''SupBasket.p'')]),
      (''SupLTS'', [(''proto'', ''SupLTS.p'')]),
      (''SupPyrFRB'', [(''proto'', ''SupPyrFRB.p''),
                       (''depths'', ''SupPyrFRB.depths''),
                       (''levels'', ''SupPyrFRB.levels'')]),
      (''SupPyrRS'', [(''proto'', ''SupPyrRS.p'')]),
      (''TCR'', [(''proto'', ''TCR.p''), (''levels'', ''TCR.levels'')]),
      (''TuftedIB'', [(''proto'', ''TuftedIB.p''), (''levels'', ''TuftedIB.levels'')]),
      (''TuftedRS'', [(''proto'', ''TuftedRS.p'')])]"

datatype py_error = KeyError | TypeError | IOError

text \<open>
  A column of a data frame after \<open>to_dict()\<close>: row index to value.  A frame read with
  two column names becomes the dict of its two columns.
\<close>

type_synonym column = "(nat \<times> real) list"

datatype pyval = Str string | Col column

text \<open>
  What the code changes outside its own variables: the \<open>z\<close> field of compartments (by
  element path), the data files read, the calls of \<open>init_channels\<close> and the model files
  loaded (file, element path), each in order.
\<close>

record world =
  comp_z :: "string \<rightharpoonup> pyval"
  files_read :: "string list"
  init_channels_calls :: nat
  models_loaded :: "(string \<times> string) list"

text \<open>\<open>os.path.join\<close> of two parts.\<close>

definition path_join :: "string \<Rightarrow> string \<Rightarrow> string" where
  "path_join a b =
     (if b \<noteq> [] \<and> hd b = CHR ''/'' then b
      else if a = [] \<or> last a = CHR ''/'' then a @ b
      else a @ ''/'' @ b)"

text \<open>
  \<open>pd.read_csv(path, sep, names = [n1, n2], dtype).to_dict()\<close>.  The file system is the
  parameter \<open>fs\<close>: the two columns a path holds, or nothing when it cannot be read or
  parsed.  The read is recorded in the world.
\<close>

definition read_csv_to_dict ::
  "(string \<rightharpoonup> column \<times> column) \<Rightarrow> string \<Rightarrow> string \<Rightarrow> string \<Rightarrow> world \<Rightarrow>
   (py_error + (string \<times> column) list) \<times> world" where
  "read_csv_to_dict fs path n1 n2 w =
     (let w' = w\<lparr>files_read := files_read w @ [path]\<rparr>
      in case fs path of
           None \<Rightarrow> (Inl IOError, w')
         | Some (c1, c2) \<Rightarrow> (Inr [(n1, c1), (n2, c2)], w'))"

text \<open>
  \<open>depths[level]\<close>: subscripting a dict whose keys are strings.  A dict used as the key
  is unhashable, which raises TypeError before any lookup.
\<close>

fun dict_getitem :: "(string \<times> column) list \<Rightarrow> pyval \<Rightarrow> py_error + column" where
  "dict_getitem d (Col c) = Inl TypeError"
| "dict_getitem d (Str k) = (case map_of d k of None \<Rightarrow> Inl KeyError | Some c \<Rightarrow> Inr c)"

text \<open>
  The loop \<open>for num, level in levels.items()\<close>: \<open>num\<close> is a column name and \<open>level\<close>
  that column; the body looks \<open>level\<close> up in \<open>depths\<close> and stores the result in the
  \<open>z\<close> field of the element \<open>{proto.path}/comp_{num}\<close>.
\<close>

fun depth_loop ::
  "string \<Rightarrow> (string \<times> column) list \<Rightarrow> (string \<times> column) list \<Rightarrow> world \<Rightarrow>
   (py_error + unit) \<times> world" where
  "depth_loop proto depths [] w = (Inr (), w)"
| "depth_loop proto depths ((num, level) # rest) w =
     (case dict_getitem depths (Col level) of
        Inl e \<Rightarrow> (Inl e, w)
      | Inr depth \<Rightarrow>
          depth_loop proto depths rest
            (w\<lparr>comp_z := (comp_z w)(proto @ ''/comp_'' @ num \<mapsto> Col depth)\<rparr>))"

definition assign_depths ::
  "(string \<rightharpoonup> column \<times> column) \<Rightarrow> string \<Rightarrow> spec \<Rightarrow> string \<Rightarrow> world \<Rightarrow>
   (py_error + unit) \<times> world" where
  "assign_depths fs proto spec protodir w =
     (let fdepth = map_of spec ''depth'';
          flevels = map_of spec ''levels''
      in if fdepth = None then (Inr (), w)
         else
           (let dfile = map_of spec ''depths'';
                lfile = map_of spec ''levels''
            in case (dfile, lfile) of
                 (Some df, Some lf) \<Rightarrow>
                   (case read_csv_to_dict fs (path_join protodir df) ''level'' ''depth'' w of
                      (Inl e, w1) \<Rightarrow> (Inl e, w1)
                    | (Inr depths, w1) \<Rightarrow>
                        (case read_csv_to_dict fs (path_join protodir lf) ''num'' ''level'' w1 of
                           (Inl e, w2) \<Rightarrow> (Inl e, w2)
                         | (Inr levels, w2) \<Rightarrow> depth_loop proto depths levels w2))
               | _ \<Rightarrow> (Inr (), w)))"

text \<open>
  \<open>get_cell\<close>.  \<open>get_proto\<close> (module \<open>channels\<close>, not among the sources) is a parameter:
  the element of that name under the parent, if the library has one.  \<open>init_channels\<close>
  is recorded in the world.  \<open>moose.loadModel\<close> (the engine's loader) is a parameter:
  called with the file path, the element path and the world, it returns the loaded
  prototype and the changed world, or raises (a missing model file raises
  FileNotFoundError, an OSError, for which \<open>IOError\<close> stands).  The result of
  \<open>get_cell\<close> is the value returned (\<open>None\<close> for Python's \<open>None\<close>) or the exception
  raised.
\<close>

definition get_cell ::
  "(string \<Rightarrow> string \<Rightarrow> world \<Rightarrow> string option) \<Rightarrow>
   (string \<Rightarrow> string \<Rightarrow> world \<Rightarrow> (py_error + string) \<times> world) \<Rightarrow>
   (string \<rightharpoonup> column \<times> column) \<Rightarrow>
   string \<Rightarrow> spec \<Rightarrow> string \<Rightarrow> string \<Rightarrow> world \<Rightarrow>
   (py_error + string option) \<times> world" where
  "get_cell get_proto loadModel fs name spec parent protodir w =
     (case get_proto name parent w of
        Some cell \<Rightarrow> (Inr (Some cell), w)
      | None \<Rightarrow>
          (let w1 = w\<lparr>init_channels_calls := init_channels_calls w + 1\<rparr>;
               cell_path = parent @ ''/'' @ name
           in case map_of spec ''proto'' of
                None \<Rightarrow> (Inl KeyError, w1)
              | Some pfile \<Rightarrow>
                  (let file_path = path_join protodir pfile
                   in case loadModel file_path cell_path w1 of
                        (Inl e, w2) \<Rightarrow> (Inl e, w2)
                      | (Inr proto, w2) \<Rightarrow>
                          (case assign_depths fs proto spec protodir w2 of
                             (Inl e, w3) \<Rightarrow> (Inl e, w3)
                           | (Inr u, w3) \<Rightarrow> (Inr None, w3)))))"

text \<open>
  Two loaders for concrete runs: one that finds every model file, creates the element
  at \<open>cell_path\<close> and records the load, and one that finds no file.
\<close>

definition loadModel_found ::
  "string \<Rightarrow> string \<Rightarrow> world \<Rightarrow> (py_error + string) \<times> world" where
  "loadModel_found file_path cell_path w =
     (Inr cell_path, w\<lparr>models_loaded := models_loaded w @ [(file_path, cell_path)]\<rparr>)"

definition loadModel_missing ::
  "string \<Rightarrow> string \<Rightarrow> world \<Rightarrow> (py_error + string) \<times> world" where
  "loadModel_missing file_path cell_path w = (Inl IOError, w)"

section \<open>Grid samples as reals\<close>

text \<open>The value of \<open>V = v - v_offset\<close> at grid index \<open>i\<close>.\<close>

definition grid_V :: "nat \<Rightarrow> real" where
  "grid_V i = vmin + real i * ((vmax - vmin) / real vdivs) - v_offset"

text \<open>The sample of \<open>linspace vmin vmax (vdivs2 + 1)\<close> at index \<open>i\<close>.\<close>

definition grid_v2 :: "nat \<Rightarrow> real" where
  "grid_v2 i = vmin + real i * ((vmax - vmin) / real vdivs2)"

section \<open>Arithmetic on finite values\<close>

lemma Fin_add [simp]: "Fin a + Fin b = Fin (a + b)"
  by (simp add: plus_fval_def)

lemma Fin_sub [simp]: "Fin a - Fin b = Fin (a - b)"
  by (simp add: minus_fval_def)

lemma Fin_mul [simp]: "Fin a * Fin b = Fin (a * b)"
  by (simp add: times_fval_def)

lemma Fin_div: "b \<noteq> 0 \<Longrightarrow> Fin a / Fin b = Fin (a / b)"
  by (simp add: divide_fval_def)

lemma Fin_div_zero:
  "Fin a / Fin 0 = (if a = 0 then NaN else if 0 < a then PInf else NInf)"
  by (simp add: divide_fval_def)

section \<open>The grid\<close>

lemma length_v_grid [simp]: "length v_grid = vdivs + 1"
  by (simp add: v_grid_def linspace_def)

lemma length_V_grid [simp]: "length V_grid = vdivs + 1"
  by (simp add: V_grid_def)

lemma v_grid_nth:
  "i \<le> vdivs \<Longrightarrow> v_grid ! i = Fin (vmin + real i * ((vmax - vmin) / real vdivs))"
  by (simp add: v_grid_def linspace_def less_Suc_eq_le del: upt_Suc)

lemma V_grid_nth:
  "i \<le> vdivs \<Longrightarrow>
   V_grid ! i = Fin (vmin + real i * ((vmax - vmin) / real vdivs) - v_offset)"
  by (simp add: V_grid_def v_grid_nth less_Suc_eq_le)

lemma q10_mul_pos: "0 < q10_mul"
  by (simp add: q10_mul_def Q10_def)

lemma Fin_neg [simp]: "- Fin a = Fin (- a)"
  by (simp add: uminus_fval_def)

section \<open>KDR: Q10 scaling of alpha/beta tables\<close>

lemma KDR_alpha_m_Fin:
  "KDR_alpha_m q (Fin x) = Fin (q * 170 * exp (73 * (x + 38 / 1000)))"
  by (simp add: KDR_alpha_m_def)

lemma KDR_beta_m_Fin:
  "KDR_beta_m q (Fin x) = Fin (q * 170 * exp (- 18 * (x + 38 / 1000)))"
  by (simp add: KDR_beta_m_def)

lemma KDR_alpha_h_Fin:
  "KDR_alpha_h q (Fin x) =
     Fin ((if - 0.046 < x then 0.76 else 0.7 + 0.065 * exp (- 80 * (x + 46 / 1000))) * q)"
  by (simp add: KDR_alpha_h_def fwhere_def)

lemma KDR_beta_h_Fin:
  "KDR_beta_h q (Fin x) = Fin (1.1 / (1 + exp (- 80.7 * (x + 0.044))) * q)"
proof -
  have "1 + exp (- 80.7 * (x + 0.044)) \<noteq> 0"
    using exp_gt_zero [of "- 80.7 * (x + 0.044)"] by linarith
  then show ?thesis
    by (simp add: KDR_beta_h_def Fin_div)
qed

lemma V_grid_nth': "i \<le> vdivs \<Longrightarrow> V_grid ! i = Fin (grid_V i)"
  by (simp add: V_grid_nth grid_V_def)

lemma KDR_gateX_nth:
  assumes "i \<le> vdivs"
  shows "tableA (gateX (make_channel_KDR q)) ! i = KDR_alpha_m q (V_grid ! i)"
    and "tableB (gateX (make_channel_KDR q)) ! i
           = KDR_alpha_m q (V_grid ! i) + KDR_beta_m q (V_grid ! i)"
  using assms by (simp_all add: make_channel_KDR_def Let_def less_Suc_eq_le)

lemma KDR_gateY_nth:
  assumes "i \<le> vdivs"
  shows "tableA (gateY (make_channel_KDR q)) ! i = KDR_alpha_h q (V_grid ! i)"
    and "tableB (gateY (make_channel_KDR q)) ! i
           = KDR_alpha_h q (V_grid ! i) + KDR_beta_h q (V_grid ! i)"
  using assms by (simp_all add: make_channel_KDR_def Let_def less_Suc_eq_le)


lemma alpha_beta_xinf:
  assumes "0 < a" "0 < b"
  shows "Fin a / (Fin a + Fin b) = Fin (a / (a + b))"
  using assms by (simp add: Fin_div)

lemma alpha_beta_tau:
  assumes "0 < a" "0 < b"
  shows "Fin 1 / (Fin a + Fin b) = Fin (1 / (a + b))"
  using assms by (simp add: Fin_div)

lemma KDR_alpha_h_pos:
  "0 < (if - 0.046 < x then 0.76 else 0.7 + 0.065 * exp (- 80 * (x + 46 / 1000)) :: real)"
  using exp_gt_zero [of "- 80 * (x + 46 / 1000)"] by (simp add: add_pos_pos)

lemma KDR_beta_h_pos: "0 < (1.1 / (1 + exp (- 80.7 * (x + 0.044))) :: real)"
  using exp_gt_zero [of "- 80.7 * (x + 0.044)"] by (simp add: add_pos_pos)

lemma KDR_m_xinf:
  assumes "0 < f" "i \<le> vdivs"
  shows "table_xinf (gateX (make_channel_KDR f)) i
         = Fin (exp (73 * (grid_V i + 38 / 1000))
                / (exp (73 * (grid_V i + 38 / 1000)) + exp (- 18 * (grid_V i + 38 / 1000))))"
proof -
  let ?ea = "exp (73 * (grid_V i + 38 / 1000))"
  let ?eb = "exp (- 18 * (grid_V i + 38 / 1000))"
  have pos: "0 < f * 170 * ?ea" "0 < f * 170 * ?eb"
    using assms(1) by simp_all
  have "table_xinf (gateX (make_channel_KDR f)) i
        = Fin (f * 170 * ?ea) / (Fin (f * 170 * ?ea) + Fin (f * 170 * ?eb))"
    using assms(2)
    by (simp only: table_xinf_def KDR_gateX_nth V_grid_nth' KDR_alpha_m_Fin KDR_beta_m_Fin)
  also have "\<dots> = Fin (f * 170 * ?ea / (f * 170 * ?ea + f * 170 * ?eb))"
    by (rule alpha_beta_xinf [OF pos])
  also have "f * 170 * ?ea / (f * 170 * ?ea + f * 170 * ?eb) = ?ea / (?ea + ?eb)"
  proof -
    have "f * 170 * ?ea + f * 170 * ?eb = (f * 170) * (?ea + ?eb)"
      by (simp add: algebra_simps)
    then show ?thesis using assms(1) by simp
  qed
  finally show ?thesis .
qed

lemma KDR_m_tau:
  assumes "0 < f" "i \<le> vdivs"
  shows "table_tau (gateX (make_channel_KDR f)) i
         = Fin (1 / (170 * (exp (73 * (grid_V i + 38 / 1000))
                            + exp (- 18 * (grid_V i + 38 / 1000)))) / f)"
proof -
  let ?ea = "exp (73 * (grid_V i + 38 / 1000))"
  let ?eb = "exp (- 18 * (grid_V i + 38 / 1000))"
  have pos: "0 < f * 170 * ?ea" "0 < f * 170 * ?eb"
    using assms(1) by simp_all
  have "table_tau (gateX (make_channel_KDR f)) i
        = Fin 1 / (Fin (f * 170 * ?ea) + Fin (f * 170 * ?eb))"
    using assms(2)
    by (simp only: table_tau_def KDR_gateX_nth V_grid_nth' KDR_alpha_m_Fin KDR_beta_m_Fin)
  also have "\<dots> = Fin (1 / (f * 170 * ?ea + f * 170 * ?eb))"
    by (rule alpha_beta_tau [OF pos])
  also have "1 / (f * 170 * ?ea + f * 170 * ?eb) = 1 / (170 * (?ea + ?eb)) / f"
    by (simp add: algebra_simps)
  finally show ?thesis .
qed

lemma KDR_h_xinf:
  assumes "0 < f" "i \<le> vdivs"
  shows "table_xinf (gateY (make_channel_KDR f)) i
         = Fin ((if - 0.046 < grid_V i then 0.76
                 else 0.7 + 0.065 * exp (- 80 * (grid_V i + 46 / 1000)))
                / ((if - 0.046 < grid_V i then 0.76
                    else 0.7 + 0.065 * exp (- 80 * (grid_V i + 46 / 1000)))
                   + 1.1 / (1 + exp (- 80.7 * (grid_V i + 0.044)))))"
proof -
  define a :: real where
    "a = (if - 0.046 < grid_V i then 0.76
          else 0.7 + 0.065 * exp (- 80 * (grid_V i + 46 / 1000)))"
  define b :: real where "b = 1.1 / (1 + exp (- 80.7 * (grid_V i + 0.044)))"
  have a: "0 < a" unfolding a_def by (rule KDR_alpha_h_pos)
  have b: "0 < b" unfolding b_def by (rule KDR_beta_h_pos)
  have pos: "0 < a * f" "0 < b * f"
    using assms(1) a b by simp_all
  have "table_xinf (gateY (make_channel_KDR f)) i = Fin (a * f) / (Fin (a * f) + Fin (b * f))"
    using assms(2)
    by (simp only: table_xinf_def KDR_gateY_nth V_grid_nth' KDR_alpha_h_Fin KDR_beta_h_Fin
        a_def b_def)
  also have "\<dots> = Fin (a * f / (a * f + b * f))"
    by (rule alpha_beta_xinf [OF pos])
  also have "a * f / (a * f + b * f) = a / (a + b)"
  proof -
    have "a * f + b * f = (a + b) * f" by (simp add: algebra_simps)
    then show ?thesis using assms(1) by simp
  qed
  finally show ?thesis unfolding a_def b_def .
qed

lemma KDR_h_tau:
  assumes "0 < f" "i \<le> vdivs"
  shows "table_tau (gateY (make_channel_KDR f)) i
         = Fin (1 / ((if - 0.046 < grid_V i then 0.76
                    else 0.7 + 0.065 * exp (- 80 * (grid_V i + 46 / 1000)))
                   + 1.1 / (1 + exp (- 80.7 * (grid_V i + 0.044)))) / f)"
proof -
  define a :: real where
    "a = (if - 0.046 < grid_V i then 0.76
          else 0.7 + 0.065 * exp (- 80 * (grid_V i + 46 / 1000)))"
  define b :: real where "b = 1.1 / (1 + exp (- 80.7 * (grid_V i + 0.044)))"
  have a: "0 < a" unfolding a_def by (rule KDR_alpha_h_pos)
  have b: "0 < b" unfolding b_def by (rule KDR_beta_h_pos)
  have pos: "0 < a * f" "0 < b * f"
    using assms(1) a b by simp_all
  have "table_tau (gateY (make_channel_KDR f)) i = Fin 1 / (Fin (a * f) + Fin (b * f))"
    using assms(2)
    by (simp only: table_tau_def KDR_gateY_nth V_grid_nth' KDR_alpha_h_Fin KDR_beta_h_Fin
        a_def b_def)
  also have "\<dots> = Fin (1 / (a * f + b * f))"
    by (rule alpha_beta_tau [OF pos])
  also have "1 / (a * f + b * f) = 1 / (a + b) / f"
    by (simp add: algebra_simps)
  finally show ?thesis unfolding a_def b_def .
qed

lemma grid_V_closed: "grid_V i = - 160 / 1000 + real i * (250 / 1000 / 640)"
  by (simp add: grid_V_def vmin_def vmax_def vdivs_def v_offset_def)

lemma ratio_scale_cancel:
  fixes a b c :: real
  assumes "c \<noteq> 0"
  shows "c * a / (c * a + c * b) = a / (a + b)"
proof -
  have "c * a + c * b = c * (a + b)" by (simp add: algebra_simps)
  then show ?thesis using assms by simp
qed

text \<open>
  Claim C1.  For every grid index \<open>i\<close> and every positive factor \<open>f\<close>, the KDR gates
  built with both rates multiplied by \<open>f\<close> store \<open>tableA = f * alpha\<close> and
  \<open>tableB = f * alpha + f * beta\<close> of the KDR rates at the sample \<open>V = grid_V i\<close>.
  Their steady state \<open>tableA / tableB\<close> is \<open>alpha / (alpha + beta)\<close> of the unscaled
  rates, the same as for the gates built with factor 1, and their time constant
  \<open>1 / tableB\<close> is the unscaled \<open>1 / (alpha + beta)\<close> divided by \<open>f\<close>; all are finite.
  The program is the instance \<open>f = q10_mul\<close>.
\<close>

theorem KDR_Q10_invariance:
  assumes "0 < f" and "i \<le> vdivs"
  shows "V_grid ! i = Fin (grid_V i)
       \<and> grid_V i = - 160 / 1000 + real i * (250 / 1000 / 640)
       \<and> tableA (gateX (make_channel_KDR f)) ! i
           = Fin (f * (170 * exp (73 * (grid_V i + 38 / 1000))))
       \<and> tableB (gateX (make_channel_KDR f)) ! i
           = Fin (f * (170 * exp (73 * (grid_V i + 38 / 1000)))
                  + f * (170 * exp (- 18 * (grid_V i + 38 / 1000))))
       \<and> table_xinf (gateX (make_channel_KDR f)) i
           = Fin (170 * exp (73 * (grid_V i + 38 / 1000))
                  / (170 * exp (73 * (grid_V i + 38 / 1000))
                     + 170 * exp (- 18 * (grid_V i + 38 / 1000))))
       \<and> table_tau (gateX (make_channel_KDR f)) i
           = Fin (1 / (170 * exp (73 * (grid_V i + 38 / 1000))
                       + 170 * exp (- 18 * (grid_V i + 38 / 1000))) / f)
       \<and> tableA (gateY (make_channel_KDR f)) ! i
           = Fin (f * (if - 0.046 < grid_V i then 0.76
                       else 0.7 + 0.065 * exp (- 80 * (grid_V i + 46 / 1000))))
       \<and> tableB (gateY (make_channel_KDR f)) ! i
           = Fin (f * (if - 0.046 < grid_V i then 0.76
                       else 0.7 + 0.065 * exp (- 80 * (grid_V i + 46 / 1000)))
                  + f * (1.1 / (1 + exp (- 80.7 * (grid_V i + 0.044)))))
       \<and> table_xinf (gateY (make_channel_KDR f)) i
           = Fin ((if - 0.046 < grid_V i then 0.76
                   else 0.7 + 0.065 * exp (- 80 * (grid_V i + 46 / 1000)))
                  / ((if - 0.046 < grid_V i then 0.76
                      else 0.7 + 0.065 * exp (- 80 * (grid_V i + 46 / 1000)))
                     + 1.1 / (1 + exp (- 80.7 * (grid_V i + 0.044)))))
       \<and> table_tau (gateY (make_channel_KDR f)) i
           = Fin (1 / ((if - 0.046 < grid_V i then 0.76
                        else 0.7 + 0.065 * exp (- 80 * (grid_V i + 46 / 1000)))
                       + 1.1 / (1 + exp (- 80.7 * (grid_V i + 0.044)))) / f)
       \<and> table_xinf (gateX (make_channel_KDR f)) i = table_xinf (gateX (make_channel_KDR 1)) i
       \<and> table_tau (gateX (make_channel_KDR f)) i
           = table_tau (gateX (make_channel_KDR 1)) i / Fin f
       \<and> table_xinf (gateY (make_channel_KDR f)) i = table_xinf (gateY (make_channel_KDR 1)) i
       \<and> table_tau (gateY (make_channel_KDR f)) i
           = table_tau (gateY (make_channel_KDR 1)) i / Fin f
       \<and> is_finite (table_xinf (gateX (make_channel_KDR f)) i)
       \<and> is_finite (table_tau (gateX (make_channel_KDR f)) i)
       \<and> is_finite (table_xinf (gateY (make_channel_KDR f)) i)
       \<and> is_finite (table_tau (gateY (make_channel_KDR f)) i)"
proof -
  have one: "(0::real) < 1" by simp
  have f0: "f \<noteq> 0" using assms(1) by simp
  have V: "V_grid ! i = Fin (grid_V i)" by (rule V_grid_nth' [OF assms(2)])
  let ?ea = "exp (73 * (grid_V i + 38 / 1000))"
  let ?eb = "exp (- 18 * (grid_V i + 38 / 1000))"
  have mA: "tableA (gateX (make_channel_KDR f)) ! i = Fin (f * (170 * ?ea))"
    by (simp add: KDR_gateX_nth [OF assms(2)] V KDR_alpha_m_Fin mult.assoc)
  have mB: "tableB (gateX (make_channel_KDR f)) ! i = Fin (f * (170 * ?ea) + f * (170 * ?eb))"
    by (simp add: KDR_gateX_nth [OF assms(2)] V KDR_alpha_m_Fin KDR_beta_m_Fin mult.assoc)
  have r: "170 * ?ea / (170 * ?ea + 170 * ?eb) = ?ea / (?ea + ?eb)"
    by (rule ratio_scale_cancel) simp
  have mx: "table_xinf (gateX (make_channel_KDR f)) i
            = Fin (170 * ?ea / (170 * ?ea + 170 * ?eb))"
    by (simp only: KDR_m_xinf [OF assms] r)
  have "170 * ?ea + 170 * ?eb = 170 * (?ea + ?eb)"
    by (rule distrib_left [symmetric])
  then have r2: "1 / (170 * ?ea + 170 * ?eb) / f = 1 / (170 * (?ea + ?eb)) / f"
    by (simp only:)
  have mt: "table_tau (gateX (make_channel_KDR f)) i = Fin (1 / (170 * ?ea + 170 * ?eb) / f)"
    by (simp only: KDR_m_tau [OF assms] r2)
  have hA: "tableA (gateY (make_channel_KDR f)) ! i
           = Fin (f * (if - 0.046 < grid_V i then 0.76
                       else 0.7 + 0.065 * exp (- 80 * (grid_V i + 46 / 1000))))"
    by (simp add: KDR_gateY_nth [OF assms(2)] V KDR_alpha_h_Fin mult.commute)
  have hB: "tableB (gateY (make_channel_KDR f)) ! i
           = Fin (f * (if - 0.046 < grid_V i then 0.76
                       else 0.7 + 0.065 * exp (- 80 * (grid_V i + 46 / 1000)))
                  + f * (1.1 / (1 + exp (- 80.7 * (grid_V i + 0.044)))))"
    by (simp add: KDR_gateY_nth [OF assms(2)] V KDR_alpha_h_Fin KDR_beta_h_Fin mult.commute)
  have rel: "table_xinf (gateX (make_channel_KDR f)) i = table_xinf (gateX (make_channel_KDR 1)) i"
      "table_tau (gateX (make_channel_KDR f)) i
           = table_tau (gateX (make_channel_KDR 1)) i / Fin f"
      "table_xinf (gateY (make_channel_KDR f)) i = table_xinf (gateY (make_channel_KDR 1)) i"
      "table_tau (gateY (make_channel_KDR f)) i
           = table_tau (gateY (make_channel_KDR 1)) i / Fin f"
      "is_finite (table_xinf (gateX (make_channel_KDR f)) i)"
      "is_finite (table_tau (gateX (make_channel_KDR f)) i)"
      "is_finite (table_xinf (gateY (make_channel_KDR f)) i)"
      "is_finite (table_tau (gateY (make_channel_KDR f)) i)"
    by (simp_all add: KDR_m_xinf [OF assms] KDR_m_xinf [OF one assms(2)]
        KDR_m_tau [OF assms] KDR_m_tau [OF one assms(2)]
        KDR_h_xinf [OF assms] KDR_h_xinf [OF one assms(2)]
        KDR_h_tau [OF assms] KDR_h_tau [OF one assms(2)] Fin_div [OF f0])
  show ?thesis
    using V grid_V_closed [of i] mA mB mx mt hA hB KDR_h_xinf [OF assms] KDR_h_tau [OF assms] rel
    by (intro conjI) assumption+
qed

theorem KDR_Q10_invariance_witness:
  "(0::real) < 3 \<and> (0::nat) \<le> vdivs
   \<and> tableA (gateX (make_channel_KDR 3)) ! 0
       = Fin (3 * (170 * exp (73 * (grid_V 0 + 38 / 1000))))
   \<and> table_xinf (gateX (make_channel_KDR 3)) 0
       = Fin (170 * exp (73 * (grid_V 0 + 38 / 1000))
              / (170 * exp (73 * (grid_V 0 + 38 / 1000))
                 + 170 * exp (- 18 * (grid_V 0 + 38 / 1000))))
   \<and> table_tau (gateX (make_channel_KDR 3)) 0
       = Fin (1 / (170 * exp (73 * (grid_V 0 + 38 / 1000))
                   + 170 * exp (- 18 * (grid_V 0 + 38 / 1000))) / 3)
   \<and> table_xinf (gateX (make_channel_KDR 3)) 0 = table_xinf (gateX (make_channel_KDR 1)) 0
   \<and> table_tau (gateX (make_channel_KDR 3)) 0
       = table_tau (gateX (make_channel_KDR 1)) 0 / Fin 3
   \<and> table_xinf (gateY (make_channel_KDR 3)) 0 = table_xinf (gateY (make_channel_KDR 1)) 0
   \<and> table_tau (gateY (make_channel_KDR 3)) 0
       = table_tau (gateY (make_channel_KDR 1)) 0 / Fin 3"
proof -
  have h: "(0::real) < 3" "(0::nat) \<le> vdivs" by simp_all
  show ?thesis
    using KDR_Q10_invariance [OF h] h by (elim conjE) (intro conjI, assumption+)
qed

section \<open>The (A, B) table representation\<close>

lemma fmaximum_Fin [simp]: "fmaximum (Fin a) (Fin b) = Fin (max a b)"
  by (simp add: max_def)

lemma add_sub_cancel_Fin: "(Fin a + y) - Fin a = y"
  by (cases y) (simp_all add: plus_fval_def minus_fval_def)

lemma NaF_alpha_m_Fin: "NaF_alpha_m (Fin x) = Fin (1500 * exp (81 * (x + 39 / 1000)))"
  by (simp add: NaF_alpha_m_def)

lemma NaF_beta_m_Fin: "NaF_beta_m (Fin x) = Fin (1500 * exp (- 66 * (x + 39 / 1000)))"
  by (simp add: NaF_beta_m_def)

lemma NaF_alpha_h_Fin: "NaF_alpha_h (Fin x) = Fin (120 * exp (- 89 * (x + 0.05)))"
  by (simp add: NaF_alpha_h_def)

lemma NaF_beta_h_Fin: "NaF_beta_h (Fin x) = Fin (120 * exp (89 * (x + 0.05)))"
  by (simp add: NaF_beta_h_def)

lemma NaF_tau_m_Fin:
  assumes "0 < a + b" "0 < q"
  shows "NaF_tau_m q (Fin a) (Fin b) = Fin (max (1 / (a + b)) (5 / 100000) / q)"
  using assms by (simp add: NaF_tau_m_def fwhere_def Fin_div)

lemma NaF_tau_h_Fin:
  assumes "0 < a + b" "0 < q"
  shows "NaF_tau_h q (Fin a) (Fin b) = Fin (max (1 / (a + b)) (2.25 / 10000) / q)"
  using assms by (simp add: NaF_tau_h_def fwhere_def Fin_div)

lemma NaF_inf_m_Fin:
  assumes "0 < a + b"
  shows "NaF_inf_m (Fin a) (Fin b) = Fin (a / (a + b))"
  using assms by (simp add: NaF_inf_m_def Fin_div)

lemma NaF_inf_h_Fin:
  assumes "0 < a + b"
  shows "NaF_inf_h (Fin a) (Fin b) = Fin (a / (a + b))"
  using assms by (simp add: NaF_inf_h_def Fin_div)

lemma tau_floor_pos:
  assumes "0 < q" "0 < c"
  shows "0 < max t c / (q::real)"
  using assms by (simp add: max_def)

lemma tau_inf_recover:
  assumes "t \<noteq> 0"
  shows "Fin 1 / (Fin 1 / Fin t) = Fin t"
    and "(Fin x / Fin t) / (Fin 1 / Fin t) = Fin x"
  using assms by (simp_all add: Fin_div)

lemma CaHVA_gateX_nth:
  assumes "i \<le> vdivs"
  shows "tableA (gateX (make_channel_CaHVA q)) ! i = CaHVA_alpha_m q (V_grid ! i)"
    and "tableB (gateX (make_channel_CaHVA q)) ! i
           = CaHVA_alpha_m q (V_grid ! i) + CaHVA_beta_m q (V_grid ! i)"
  using assms by (simp_all add: make_channel_CaHVA_def Let_def less_Suc_eq_le)

lemma CaHVA_gateY_nth:
  assumes "i \<le> vdivs"
  shows "tableA (gateY (make_channel_CaHVA q)) ! i = CaHVA_alpha_h q (V_grid ! i)"
    and "tableB (gateY (make_channel_CaHVA q)) ! i
           = CaHVA_alpha_h q (V_grid ! i) + CaHVA_beta_h q (V_grid ! i)"
  using assms by (simp_all add: make_channel_CaHVA_def Let_def less_Suc_eq_le)

lemma CaHVA_lengths:
  "length (tableA (gateX (make_channel_CaHVA q))) = vdivs + 1"
  "length (tableB (gateX (make_channel_CaHVA q))) = vdivs + 1"
  "length (tableA (gateY (make_channel_CaHVA q))) = vdivs + 1"
  "length (tableB (gateY (make_channel_CaHVA q))) = vdivs + 1"
  by (simp_all add: make_channel_CaHVA_def Let_def)

lemma NaF_gateX_nth:
  assumes "i \<le> vdivs"
  shows "tableA (gateX (make_channel_NaF q)) ! i
           = NaF_inf_m (NaF_alpha_m (V_grid ! i)) (NaF_beta_m (V_grid ! i))
             / NaF_tau_m q (NaF_alpha_m (V_grid ! i)) (NaF_beta_m (V_grid ! i))"
    and "tableB (gateX (make_channel_NaF q)) ! i
           = Fin 1 / NaF_tau_m q (NaF_alpha_m (V_grid ! i)) (NaF_beta_m (V_grid ! i))"
  using assms by (simp_all add: make_channel_NaF_def Let_def less_Suc_eq_le)

lemma NaF_gateY_nth:
  assumes "i \<le> vdivs"
  shows "tableA (gateY (make_channel_NaF q)) ! i
           = NaF_inf_h (NaF_alpha_h (V_grid ! i)) (NaF_beta_h (V_grid ! i))
             / NaF_tau_h q (NaF_alpha_h (V_grid ! i)) (NaF_beta_h (V_grid ! i))"
    and "tableB (gateY (make_channel_NaF q)) ! i
           = Fin 1 / NaF_tau_h q (NaF_alpha_h (V_grid ! i)) (NaF_beta_h (V_grid ! i))"
  using assms by (simp_all add: make_channel_NaF_def Let_def less_Suc_eq_le)

lemma NaF_lengths:
  "length (tableA (gateX (make_channel_NaF q))) = vdivs + 1"
  "length (tableB (gateX (make_channel_NaF q))) = vdivs + 1"
  "length (tableA (gateY (make_channel_NaF q))) = vdivs + 1"
  "length (tableB (gateY (make_channel_NaF q))) = vdivs + 1"
  by (simp_all add: make_channel_NaF_def Let_def)

lemma KDR_lengths:
  "length (tableA (gateX (make_channel_KDR q))) = vdivs + 1"
  "length (tableB (gateX (make_channel_KDR q))) = vdivs + 1"
  "length (tableA (gateY (make_channel_KDR q))) = vdivs + 1"
  "length (tableB (gateY (make_channel_KDR q))) = vdivs + 1"
  by (simp_all add: make_channel_KDR_def Let_def)

lemma plot_hhgate_nth:
  assumes "i < length (tableA g)" "i < length (tableB g)"
  shows "alpha_dat (plot_hhgate g) ! i = tableA g ! i"
    and "beta_dat (plot_hhgate g) ! i = tableB g ! i - tableA g ! i"
    and "tau_dat (plot_hhgate g) ! i = Fin 1 / tableB g ! i"
    and "inf_dat (plot_hhgate g) ! i = tableA g ! i / tableB g ! i"
  using assms by (simp_all add: plot_hhgate_def Let_def)

text \<open>NaF m-gate: tau and inf at a grid sample are finite, tau positive.\<close>

lemma NaF_m_sum_pos: "0 < 1500 * exp (81 * (x + 39 / 1000)) + 1500 * exp (- 66 * (x + 39 / 1000 :: real))"
  by (simp add: add_pos_pos)

lemma NaF_h_sum_pos: "0 < 120 * exp (- 89 * (x + 0.05)) + 120 * exp (89 * (x + 0.05 :: real))"
  by (simp add: add_pos_pos)

lemma NaF_m_tau_at:
  assumes "0 < q"
  shows "\<exists>t. 0 < t \<and> NaF_tau_m q (NaF_alpha_m (Fin x)) (NaF_beta_m (Fin x)) = Fin t"
  using assms NaF_m_sum_pos [of x]
  by (simp add: NaF_alpha_m_Fin NaF_beta_m_Fin NaF_tau_m_Fin tau_floor_pos)

lemma NaF_h_tau_at:
  assumes "0 < q"
  shows "\<exists>t. 0 < t \<and> NaF_tau_h q (NaF_alpha_h (Fin x)) (NaF_beta_h (Fin x)) = Fin t"
  using assms NaF_h_sum_pos [of x]
  by (simp add: NaF_alpha_h_Fin NaF_beta_h_Fin NaF_tau_h_Fin tau_floor_pos)

lemma NaF_m_inf_at:
  "\<exists>y. NaF_inf_m (NaF_alpha_m (Fin x)) (NaF_beta_m (Fin x)) = Fin y"
  using NaF_m_sum_pos [of x]
  by (simp add: NaF_alpha_m_Fin NaF_beta_m_Fin NaF_inf_m_Fin)

lemma NaF_h_inf_at:
  "\<exists>y. NaF_inf_h (NaF_alpha_h (Fin x)) (NaF_beta_h (Fin x)) = Fin y"
  using NaF_h_sum_pos [of x]
  by (simp add: NaF_alpha_h_Fin NaF_beta_h_Fin NaF_inf_h_Fin)

lemma CaHVA_alpha_m_Fin:
  "CaHVA_alpha_m q (Fin x) = Fin (1600 / (1 + exp (- 72 * (x - 5 / 1000))) * q)"
proof -
  have "1 + exp (- 72 * (x - 5 / 1000)) \<noteq> 0"
    using exp_gt_zero [of "- 72 * (x - 5 / 1000)"] by linarith
  then show ?thesis by (simp add: CaHVA_alpha_m_def Fin_div)
qed

lemma CaHVA_alpha_h_Fin:
  "CaHVA_alpha_h q (Fin x) =
     Fin (if x < - 0.060 then 5 * q else 5 * exp (- 50 * (x + 0.06)) * q)"
  by (simp add: CaHVA_alpha_h_def Let_def)

text \<open>
  Claim C2.  At each of the \<open>vdivs + 1\<close> grid points, a gate given by alpha and beta
  (CaHVA, KDR) stores \<open>tableA = alpha\<close> and \<open>tableB = alpha + beta\<close>, and a gate given by
  tau and inf (NaF) stores \<open>tableA = inf / tau\<close> and \<open>tableB = 1 / tau\<close>.  The export
  of \<open>plot_hhgate\<close> then gives back beta as \<open>tableB - tableA\<close> for the first kind, and
  tau as \<open>1 / tableB\<close> and inf as \<open>tableA / tableB\<close> for the second.
\<close>

theorem table_AB_representation:
  assumes "0 < q" and "i \<le> vdivs"
  shows "length (tableA (gateX (make_channel_CaHVA q))) = vdivs + 1
       \<and> length (tableB (gateX (make_channel_CaHVA q))) = vdivs + 1
       \<and> length (tableA (gateY (make_channel_CaHVA q))) = vdivs + 1
       \<and> length (tableB (gateY (make_channel_CaHVA q))) = vdivs + 1
       \<and> length (tableA (gateX (make_channel_NaF q))) = vdivs + 1
       \<and> length (tableB (gateX (make_channel_NaF q))) = vdivs + 1
       \<and> length (tableA (gateY (make_channel_NaF q))) = vdivs + 1
       \<and> length (tableB (gateY (make_channel_NaF q))) = vdivs + 1
       \<and> tableA (gateX (make_channel_CaHVA q)) ! i = CaHVA_alpha_m q (V_grid ! i)
       \<and> tableB (gateX (make_channel_CaHVA q)) ! i
           = CaHVA_alpha_m q (V_grid ! i) + CaHVA_beta_m q (V_grid ! i)
       \<and> tableA (gateY (make_channel_CaHVA q)) ! i = CaHVA_alpha_h q (V_grid ! i)
       \<and> tableB (gateY (make_channel_CaHVA q)) ! i
           = CaHVA_alpha_h q (V_grid ! i) + CaHVA_beta_h q (V_grid ! i)
       \<and> tableA (gateX (make_channel_KDR q)) ! i = KDR_alpha_m q (V_grid ! i)
       \<and> tableB (gateX (make_channel_KDR q)) ! i
           = KDR_alpha_m q (V_grid ! i) + KDR_beta_m q (V_grid ! i)
       \<and> tableA (gateY (make_channel_KDR q)) ! i = KDR_alpha_h q (V_grid ! i)
       \<and> tableB (gateY (make_channel_KDR q)) ! i
           = KDR_alpha_h q (V_grid ! i) + KDR_beta_h q (V_grid ! i)
       \<and> beta_dat (plot_hhgate (gateX (make_channel_KDR q))) ! i
           = KDR_beta_m q (V_grid ! i)
       \<and> beta_dat (plot_hhgate (gateY (make_channel_KDR q))) ! i
           = KDR_beta_h q (V_grid ! i)
       \<and> tableA (gateX (make_channel_NaF q)) ! i
           = NaF_inf_m (NaF_alpha_m (V_grid ! i)) (NaF_beta_m (V_grid ! i))
             / NaF_tau_m q (NaF_alpha_m (V_grid ! i)) (NaF_beta_m (V_grid ! i))
       \<and> tableB (gateX (make_channel_NaF q)) ! i
           = Fin 1 / NaF_tau_m q (NaF_alpha_m (V_grid ! i)) (NaF_beta_m (V_grid ! i))
       \<and> tableA (gateY (make_channel_NaF q)) ! i
           = NaF_inf_h (NaF_alpha_h (V_grid ! i)) (NaF_beta_h (V_grid ! i))
             / NaF_tau_h q (NaF_alpha_h (V_grid ! i)) (NaF_beta_h (V_grid ! i))
       \<and> tableB (gateY (make_channel_NaF q)) ! i
           = Fin 1 / NaF_tau_h q (NaF_alpha_h (V_grid ! i)) (NaF_beta_h (V_grid ! i))
       \<and> alpha_dat (plot_hhgate (gateX (make_channel_CaHVA q))) ! i
           = CaHVA_alpha_m q (V_grid ! i)
       \<and> beta_dat (plot_hhgate (gateX (make_channel_CaHVA q))) ! i
           = CaHVA_beta_m q (V_grid ! i)
       \<and> alpha_dat (plot_hhgate (gateY (make_channel_CaHVA q))) ! i
           = CaHVA_alpha_h q (V_grid ! i)
       \<and> beta_dat (plot_hhgate (gateY (make_channel_CaHVA q))) ! i
           = CaHVA_beta_h q (V_grid ! i)
       \<and> tau_dat (plot_hhgate (gateX (make_channel_NaF q))) ! i
           = NaF_tau_m q (NaF_alpha_m (V_grid ! i)) (NaF_beta_m (V_grid ! i))
       \<and> inf_dat (plot_hhgate (gateX (make_channel_NaF q))) ! i
           = NaF_inf_m (NaF_alpha_m (V_grid ! i)) (NaF_beta_m (V_grid ! i))
       \<and> tau_dat (plot_hhgate (gateY (make_channel_NaF q))) ! i
           = NaF_tau_h q (NaF_alpha_h (V_grid ! i)) (NaF_beta_h (V_grid ! i))
       \<and> inf_dat (plot_hhgate (gateY (make_channel_NaF q))) ! i
           = NaF_inf_h (NaF_alpha_h (V_grid ! i)) (NaF_beta_h (V_grid ! i))"
proof -
  have lt: "i < vdivs + 1" using assms(2) by simp
  obtain tm where tm: "0 < tm"
      "NaF_tau_m q (NaF_alpha_m (Fin (grid_V i))) (NaF_beta_m (Fin (grid_V i))) = Fin tm"
    using NaF_m_tau_at [OF assms(1)] by blast
  obtain th where th: "0 < th"
      "NaF_tau_h q (NaF_alpha_h (Fin (grid_V i))) (NaF_beta_h (Fin (grid_V i))) = Fin th"
    using NaF_h_tau_at [OF assms(1)] by blast
  obtain ym where ym:
      "NaF_inf_m (NaF_alpha_m (Fin (grid_V i))) (NaF_beta_m (Fin (grid_V i))) = Fin ym"
    using NaF_m_inf_at by blast
  obtain yh where yh:
      "NaF_inf_h (NaF_alpha_h (Fin (grid_V i))) (NaF_beta_h (Fin (grid_V i))) = Fin yh"
    using NaF_h_inf_at by blast
  have tm0: "tm \<noteq> 0" and th0: "th \<noteq> 0" using tm(1) th(1) by simp_all
  have V: "V_grid ! i = Fin (grid_V i)" by (rule V_grid_nth' [OF assms(2)])
  have cm: "beta_dat (plot_hhgate (gateX (make_channel_CaHVA q))) ! i
            = CaHVA_beta_m q (V_grid ! i)"
    using lt
    by (simp add: plot_hhgate_nth CaHVA_lengths CaHVA_gateX_nth [OF assms(2)] V
        CaHVA_alpha_m_Fin add_sub_cancel_Fin)
  have ch: "beta_dat (plot_hhgate (gateY (make_channel_CaHVA q))) ! i
            = CaHVA_beta_h q (V_grid ! i)"
    using lt
    by (simp add: plot_hhgate_nth CaHVA_lengths CaHVA_gateY_nth [OF assms(2)] V
        CaHVA_alpha_h_Fin add_sub_cancel_Fin)
  have nm: "tau_dat (plot_hhgate (gateX (make_channel_NaF q))) ! i
            = NaF_tau_m q (NaF_alpha_m (V_grid ! i)) (NaF_beta_m (V_grid ! i))"
       "inf_dat (plot_hhgate (gateX (make_channel_NaF q))) ! i
            = NaF_inf_m (NaF_alpha_m (V_grid ! i)) (NaF_beta_m (V_grid ! i))"
    using lt
    by (simp_all add: plot_hhgate_nth NaF_lengths NaF_gateX_nth [OF assms(2)] V tm(2) ym
        tau_inf_recover [OF tm0])
  have nh: "tau_dat (plot_hhgate (gateY (make_channel_NaF q))) ! i
            = NaF_tau_h q (NaF_alpha_h (V_grid ! i)) (NaF_beta_h (V_grid ! i))"
       "inf_dat (plot_hhgate (gateY (make_channel_NaF q))) ! i
            = NaF_inf_h (NaF_alpha_h (V_grid ! i)) (NaF_beta_h (V_grid ! i))"
    using lt
    by (simp_all add: plot_hhgate_nth NaF_lengths NaF_gateY_nth [OF assms(2)] V th(2) yh
        tau_inf_recover [OF th0])
  have km: "beta_dat (plot_hhgate (gateX (make_channel_KDR q))) ! i
            = KDR_beta_m q (V_grid ! i)"
    using lt
    by (simp add: plot_hhgate_nth KDR_lengths KDR_gateX_nth [OF assms(2)] V
        KDR_alpha_m_Fin add_sub_cancel_Fin)
  have kh: "beta_dat (plot_hhgate (gateY (make_channel_KDR q))) ! i
            = KDR_beta_h q (V_grid ! i)"
    using lt
    by (simp add: plot_hhgate_nth KDR_lengths KDR_gateY_nth [OF assms(2)] V
        KDR_alpha_h_Fin add_sub_cancel_Fin)
  have am: "alpha_dat (plot_hhgate (gateX (make_channel_CaHVA q))) ! i
            = CaHVA_alpha_m q (V_grid ! i)"
       "alpha_dat (plot_hhgate (gateY (make_channel_CaHVA q))) ! i
            = CaHVA_alpha_h q (V_grid ! i)"
    using lt
    by (simp_all add: plot_hhgate_nth CaHVA_lengths CaHVA_gateX_nth [OF assms(2)]
        CaHVA_gateY_nth [OF assms(2)])
  show ?thesis
    using CaHVA_lengths [of q] NaF_lengths [of q] CaHVA_gateX_nth [OF assms(2), of q]
      CaHVA_gateY_nth [OF assms(2), of q] NaF_gateX_nth [OF assms(2), of q]
      NaF_gateY_nth [OF assms(2), of q] cm ch nm nh am km kh
      KDR_gateX_nth [OF assms(2), of q] KDR_gateY_nth [OF assms(2), of q]
    by (intro conjI) assumption+
qed


theorem table_AB_representation_witness:
  "(0::real) < 1 \<and> (0::nat) \<le> vdivs
   \<and> tableB (gateX (make_channel_CaHVA 1)) ! 0
       = CaHVA_alpha_m 1 (V_grid ! 0) + CaHVA_beta_m 1 (V_grid ! 0)
   \<and> beta_dat (plot_hhgate (gateX (make_channel_CaHVA 1))) ! 0 = CaHVA_beta_m 1 (V_grid ! 0)
   \<and> tableB (gateX (make_channel_NaF 1)) ! 0
       = Fin 1 / NaF_tau_m 1 (NaF_alpha_m (V_grid ! 0)) (NaF_beta_m (V_grid ! 0))
   \<and> tau_dat (plot_hhgate (gateX (make_channel_NaF 1))) ! 0
       = NaF_tau_m 1 (NaF_alpha_m (V_grid ! 0)) (NaF_beta_m (V_grid ! 0))
   \<and> inf_dat (plot_hhgate (gateX (make_channel_NaF 1))) ! 0
       = NaF_inf_m (NaF_alpha_m (V_grid ! 0)) (NaF_beta_m (V_grid ! 0))"
  using table_AB_representation [of 1 0] by simp

section \<open>Finiteness of the tables\<close>

lemma grid_V_off_singularity:
  "grid_V i + 8.9 / 1000 \<noteq> 0"
proof
  assume "grid_V i + 8.9 / 1000 = 0"
  then have "real i * 125 = 48352"
    by (simp add: grid_V_def vmin_def vmax_def vdivs_def v_offset_def field_simps)
  then have "real (i * 125) = real 48352"
    by simp
  then have "i * 125 = 48352"
    by (simp only: of_nat_eq_iff)
  then show False
    by presburger
qed

lemma CaHVA_x_Fin: "CaHVA_x (Fin x) = Fin ((x + 8.9 / 1000) / (- 0.005))"
  by (simp add: CaHVA_x_def Fin_div)

lemma CaHVA_beta_m_Fin:
  assumes "x + 8.9 / 1000 \<noteq> 0"
  shows "CaHVA_beta_m q (Fin x)
         = Fin (100 * ((x + 8.9 / 1000) / (- 0.005))
                / (1 - exp (- ((x + 8.9 / 1000) / (- 0.005)))) * q)"
proof -
  have "(x + 8.9 / 1000) / (- 0.005) \<noteq> 0"
    using assms by simp
  then have "exp (- ((x + 8.9 / 1000) / (- 0.005))) \<noteq> 1"
    by simp
  then have "1 - exp (- ((x + 8.9 / 1000) / (- 0.005))) \<noteq> 0"
    by simp
  then show ?thesis
    by (simp add: CaHVA_beta_m_def CaHVA_x_Fin Let_def Fin_div)
qed

lemma CaHVA_beta_m_singular: "CaHVA_beta_m q (Fin (- 8.9 / 1000)) = NaN"
  by (simp add: CaHVA_beta_m_def CaHVA_x_Fin Let_def Fin_div_zero times_fval_def)

lemma CaHVA_beta_h_Fin:
  "CaHVA_beta_h q (Fin x) =
     Fin (if x < - 0.060 then 0 else (5 - 5 * exp (- 50 * (x + 0.060))) * q)"
  by (simp add: CaHVA_beta_h_def Let_def)

lemma list_all_map_grid:
  assumes "\<And>i. i \<le> vdivs \<Longrightarrow> is_finite (f (Fin (grid_V i)))"
  shows "list_all is_finite (map f V_grid)"
proof -
  have "\<And>i. i < length V_grid \<Longrightarrow> is_finite (map f V_grid ! i)"
    using assms by (simp add: V_grid_nth' less_Suc_eq_le)
  then show ?thesis
    by (simp add: list_all_length)
qed

lemma V_grid_misses_singularity: "Fin (- 8.9 / 1000) \<notin> set V_grid"
proof
  assume "Fin (- 8.9 / 1000) \<in> set V_grid"
  then obtain i where i: "i < length V_grid" "V_grid ! i = Fin (- 8.9 / 1000)"
    by (auto simp: in_set_conv_nth)
  then have "grid_V i = - 8.9 / 1000"
    by (simp add: V_grid_nth' less_Suc_eq_le)
  then show False
    using grid_V_off_singularity [of i] by simp
qed

lemma CaHVA_tables_finite:
  assumes "0 < q"
  shows "list_all is_finite (tableA (gateX (make_channel_CaHVA q)))"
    and "list_all is_finite (tableB (gateX (make_channel_CaHVA q)))"
    and "list_all is_finite (tableA (gateY (make_channel_CaHVA q)))"
    and "list_all is_finite (tableB (gateY (make_channel_CaHVA q)))"
proof -
  show "list_all is_finite (tableA (gateX (make_channel_CaHVA q)))"
    by (simp add: make_channel_CaHVA_def Let_def list_all_map_grid CaHVA_alpha_m_Fin)
  show "list_all is_finite (tableA (gateY (make_channel_CaHVA q)))"
    by (simp add: make_channel_CaHVA_def Let_def list_all_map_grid CaHVA_alpha_h_Fin)
  have "\<And>i. i < vdivs + 1 \<Longrightarrow> is_finite (tableB (gateX (make_channel_CaHVA q)) ! i)"
    by (simp add: CaHVA_gateX_nth V_grid_nth' CaHVA_alpha_m_Fin
        CaHVA_beta_m_Fin [OF grid_V_off_singularity] less_Suc_eq_le)
  then show "list_all is_finite (tableB (gateX (make_channel_CaHVA q)))"
    by (simp add: list_all_length CaHVA_lengths)
  have "\<And>i. i < vdivs + 1 \<Longrightarrow> is_finite (tableB (gateY (make_channel_CaHVA q)) ! i)"
    by (simp add: CaHVA_gateY_nth V_grid_nth' CaHVA_alpha_h_Fin CaHVA_beta_h_Fin
        less_Suc_eq_le)
  then show "list_all is_finite (tableB (gateY (make_channel_CaHVA q)))"
    by (simp add: list_all_length CaHVA_lengths)
qed

lemma KDR_tables_finite:
  shows "list_all is_finite (tableA (gateX (make_channel_KDR q)))"
    and "list_all is_finite (tableB (gateX (make_channel_KDR q)))"
    and "list_all is_finite (tableA (gateY (make_channel_KDR q)))"
    and "list_all is_finite (tableB (gateY (make_channel_KDR q)))"
proof -
  show "list_all is_finite (tableA (gateX (make_channel_KDR q)))"
    by (simp add: make_channel_KDR_def Let_def list_all_map_grid KDR_alpha_m_Fin)
  show "list_all is_finite (tableA (gateY (make_channel_KDR q)))"
    by (simp add: make_channel_KDR_def Let_def list_all_map_grid KDR_alpha_h_Fin)
  have "\<And>i. i < vdivs + 1 \<Longrightarrow> is_finite (tableB (gateX (make_channel_KDR q)) ! i)"
    by (simp add: KDR_gateX_nth V_grid_nth' KDR_alpha_m_Fin KDR_beta_m_Fin less_Suc_eq_le)
  then show "list_all is_finite (tableB (gateX (make_channel_KDR q)))"
    by (simp add: list_all_length KDR_lengths)
  have "\<And>i. i < vdivs + 1 \<Longrightarrow> is_finite (tableB (gateY (make_channel_KDR q)) ! i)"
    by (simp add: KDR_gateY_nth V_grid_nth' KDR_alpha_h_Fin KDR_beta_h_Fin less_Suc_eq_le)
  then show "list_all is_finite (tableB (gateY (make_channel_KDR q)))"
    by (simp add: list_all_length KDR_lengths)
qed

lemma NaF_entries_finite:
  assumes "0 < q" "i \<le> vdivs"
  shows "is_finite (tableA (gateX (make_channel_NaF q)) ! i)"
    and "is_finite (tableB (gateX (make_channel_NaF q)) ! i)"
    and "is_finite (tableA (gateY (make_channel_NaF q)) ! i)"
    and "is_finite (tableB (gateY (make_channel_NaF q)) ! i)"
proof -
  obtain tm where tm: "0 < tm"
      "NaF_tau_m q (NaF_alpha_m (Fin (grid_V i))) (NaF_beta_m (Fin (grid_V i))) = Fin tm"
    using NaF_m_tau_at [OF assms(1)] by blast
  obtain th where th: "0 < th"
      "NaF_tau_h q (NaF_alpha_h (Fin (grid_V i))) (NaF_beta_h (Fin (grid_V i))) = Fin th"
    using NaF_h_tau_at [OF assms(1)] by blast
  obtain ym where ym:
      "NaF_inf_m (NaF_alpha_m (Fin (grid_V i))) (NaF_beta_m (Fin (grid_V i))) = Fin ym"
    using NaF_m_inf_at by blast
  obtain yh where yh:
      "NaF_inf_h (NaF_alpha_h (Fin (grid_V i))) (NaF_beta_h (Fin (grid_V i))) = Fin yh"
    using NaF_h_inf_at by blast
  have tm0: "tm \<noteq> 0" and th0: "th \<noteq> 0" using tm(1) th(1) by simp_all
  have V: "V_grid ! i = Fin (grid_V i)" by (rule V_grid_nth' [OF assms(2)])
  show "is_finite (tableA (gateX (make_channel_NaF q)) ! i)"
    by (simp add: NaF_gateX_nth [OF assms(2)] V tm(2) ym Fin_div [OF tm0])
  show "is_finite (tableB (gateX (make_channel_NaF q)) ! i)"
    by (simp add: NaF_gateX_nth [OF assms(2)] V tm(2) Fin_div [OF tm0])
  show "is_finite (tableA (gateY (make_channel_NaF q)) ! i)"
    by (simp add: NaF_gateY_nth [OF assms(2)] V th(2) yh Fin_div [OF th0])
  show "is_finite (tableB (gateY (make_channel_NaF q)) ! i)"
    by (simp add: NaF_gateY_nth [OF assms(2)] V th(2) Fin_div [OF th0])
qed

lemma NaF_tables_finite:
  assumes "0 < q"
  shows "list_all is_finite (tableA (gateX (make_channel_NaF q)))"
    and "list_all is_finite (tableB (gateX (make_channel_NaF q)))"
    and "list_all is_finite (tableA (gateY (make_channel_NaF q)))"
    and "list_all is_finite (tableB (gateY (make_channel_NaF q)))"
  using NaF_entries_finite [OF assms]
  by (simp_all add: list_all_length NaF_lengths less_Suc_eq_le)

text \<open>
  Claim C8.  Built with the program's factor \<open>q10_mul\<close> over the grid of
  \<open>vdivs + 1 = 641\<close> samples from \<open>vmin\<close> to \<open>vmax\<close>, every entry of \<open>tableA\<close> and
  \<open>tableB\<close> of the CaHVA, KDR and NaF gates is finite.  The CaHVA m-gate beta is
  \<open>0 / 0\<close> (NaN) at \<open>V = -8.9e-3\<close>, and no grid sample has that value.
\<close>

theorem tables_finite:
  "vmin = - 150 / 1000 \<and> vmax = 100 / 1000 \<and> vdivs = 640
   \<and> list_all is_finite (tableA (gateX (make_channel_CaHVA q10_mul)))
   \<and> list_all is_finite (tableB (gateX (make_channel_CaHVA q10_mul)))
   \<and> list_all is_finite (tableA (gateY (make_channel_CaHVA q10_mul)))
   \<and> list_all is_finite (tableB (gateY (make_channel_CaHVA q10_mul)))
   \<and> list_all is_finite (tableA (gateX (make_channel_KDR q10_mul)))
   \<and> list_all is_finite (tableB (gateX (make_channel_KDR q10_mul)))
   \<and> list_all is_finite (tableA (gateY (make_channel_KDR q10_mul)))
   \<and> list_all is_finite (tableB (gateY (make_channel_KDR q10_mul)))
   \<and> list_all is_finite (tableA (gateX (make_channel_NaF q10_mul)))
   \<and> list_all is_finite (tableB (gateX (make_channel_NaF q10_mul)))
   \<and> list_all is_finite (tableA (gateY (make_channel_NaF q10_mul)))
   \<and> list_all is_finite (tableB (gateY (make_channel_NaF q10_mul)))
   \<and> CaHVA_beta_m q10_mul (Fin (- 8.9 / 1000)) = NaN
   \<and> Fin (- 8.9 / 1000) \<notin> set V_grid"
  using CaHVA_tables_finite [OF q10_mul_pos] KDR_tables_finite [of q10_mul]
    NaF_tables_finite [OF q10_mul_pos] CaHVA_beta_m_singular [of q10_mul]
    V_grid_misses_singularity
  by (simp add: vmin_def vmax_def vdivs_def)

section \<open>granule\_cell\_hhchannel2.py: the NaF expressions at finite voltages\<close>

lemma expr_max_Fin [simp]: "expr_max (Fin a) (Fin b) = Fin (max a b)"
  by (simp add: expr_max_def max_def)

lemma NaF2_alpha_m_Fin:
  "NaF2_alpha_m Q (Fin x) = Fin (Q * 1500 * exp (81 * (x - 10 / 1000 + 39 / 1000)))"
  by (simp add: NaF2_alpha_m_def)

lemma NaF2_beta_m_Fin:
  "NaF2_beta_m Q (Fin x) = Fin (Q * 1500 * exp (- 66 * (x - 10 / 1000 + 39 / 1000)))"
  by (simp add: NaF2_beta_m_def)

lemma NaF2_alpha_h_Fin:
  "NaF2_alpha_h Q (Fin x) = Fin (Q * 120 * exp (- 89 * (x - 10 / 1000 + 0.05)))"
  by (simp add: NaF2_alpha_h_def)

lemma NaF2_beta_h_Fin:
  "NaF2_beta_h Q (Fin x) = Fin (Q * 120 * exp (89 * (x - 10 / 1000 + 0.05)))"
  by (simp add: NaF2_beta_h_def)

lemma NaF2_m_tau_of_Fin:
  assumes "0 < a + b"
  shows "NaF2_m_tau_of (Fin a) (Fin b) = Fin (max (1 / (a + b)) (1 / 100000))"
  using assms by (simp add: NaF2_m_tau_of_def Fin_div)

lemma NaF2_h_tau_of_Fin:
  assumes "0 < a + b"
  shows "NaF2_h_tau_of (Fin a) (Fin b) = Fin (max (1 / (a + b)) (0.045 / 1000))"
  using assms by (simp add: NaF2_h_tau_of_def Fin_div)



lemma NaF2_m_sum_pos:
  assumes "0 < Q"
  shows "0 < Q * 1500 * exp (81 * (x - 10 / 1000 + 39 / 1000))
             + Q * 1500 * exp (- 66 * (x - 10 / 1000 + 39 / 1000 :: real))"
  using assms by (simp add: add_pos_pos)

lemma NaF2_h_sum_pos:
  assumes "0 < Q"
  shows "0 < Q * 120 * exp (- 89 * (x - 10 / 1000 + 0.05))
             + Q * 120 * exp (89 * (x - 10 / 1000 + 0.05 :: real))"
  using assms by (simp add: add_pos_pos)

lemma NaF2_m_tauExpr_Fin:
  assumes "0 < Q"
  shows "NaF2_m_tauExpr Q (Fin x)
         = Fin (max (1 / (Q * 1500 * exp (81 * (x - 10 / 1000 + 39 / 1000))
                          + Q * 1500 * exp (- 66 * (x - 10 / 1000 + 39 / 1000))))
                    (1 / 100000))"
  by (simp only: NaF2_m_tauExpr_def Let_def NaF2_alpha_m_Fin NaF2_beta_m_Fin
      NaF2_m_tau_of_Fin [OF NaF2_m_sum_pos [OF assms]])

lemma NaF2_h_tauExpr_Fin:
  assumes "0 < Q"
  shows "NaF2_h_tauExpr Q (Fin x)
         = Fin (max (1 / (Q * 120 * exp (- 89 * (x - 10 / 1000 + 0.05))
                          + Q * 120 * exp (89 * (x - 10 / 1000 + 0.05))))
                    (0.045 / 1000))"
  by (simp only: NaF2_h_tauExpr_def Let_def NaF2_alpha_h_Fin NaF2_beta_h_Fin
      NaF2_h_tau_of_Fin [OF NaF2_h_sum_pos [OF assms]])

lemma NaF2_m_infExpr_Fin:
  assumes "0 < Q"
  shows "NaF2_m_infExpr Q (Fin x)
         = Fin (exp (81 * (x - 10 / 1000 + 39 / 1000))
                / (exp (81 * (x - 10 / 1000 + 39 / 1000))
                   + exp (- 66 * (x - 10 / 1000 + 39 / 1000))))"
proof -
  let ?ea = "exp (81 * (x - 10 / 1000 + 39 / 1000))"
  let ?eb = "exp (- 66 * (x - 10 / 1000 + 39 / 1000))"
  have pos: "0 < Q * 1500 * ?ea" "0 < Q * 1500 * ?eb"
    using assms by simp_all
  have "NaF2_m_infExpr Q (Fin x)
        = Fin (Q * 1500 * ?ea) / (Fin (Q * 1500 * ?ea) + Fin (Q * 1500 * ?eb))"
    by (simp only: NaF2_m_infExpr_def Let_def NaF2_alpha_m_Fin NaF2_beta_m_Fin)
  also have "\<dots> = Fin (Q * 1500 * ?ea / (Q * 1500 * ?ea + Q * 1500 * ?eb))"
    by (rule alpha_beta_xinf [OF pos])
  also have "Q * 1500 * ?ea / (Q * 1500 * ?ea + Q * 1500 * ?eb) = ?ea / (?ea + ?eb)"
  proof -
    have "Q * 1500 * ?ea + Q * 1500 * ?eb = (Q * 1500) * (?ea + ?eb)"
      by (simp add: algebra_simps)
    then show ?thesis using assms by simp
  qed
  finally show ?thesis .
qed

lemma NaF2_h_infExpr_Fin:
  assumes "0 < Q"
  shows "NaF2_h_infExpr Q (Fin x)
         = Fin (exp (- 89 * (x - 10 / 1000 + 0.05))
                / (exp (- 89 * (x - 10 / 1000 + 0.05))
                   + exp (89 * (x - 10 / 1000 + 0.05))))"
proof -
  let ?ea = "exp (- 89 * (x - 10 / 1000 + 0.05))"
  let ?eb = "exp (89 * (x - 10 / 1000 + 0.05))"
  have pos: "0 < Q * 120 * ?ea" "0 < Q * 120 * ?eb"
    using assms by simp_all
  have "NaF2_h_infExpr Q (Fin x)
        = Fin (Q * 120 * ?ea) / (Fin (Q * 120 * ?ea) + Fin (Q * 120 * ?eb))"
    by (simp only: NaF2_h_infExpr_def Let_def NaF2_alpha_h_Fin NaF2_beta_h_Fin)
  also have "\<dots> = Fin (Q * 120 * ?ea / (Q * 120 * ?ea + Q * 120 * ?eb))"
    by (rule alpha_beta_xinf [OF pos])
  also have "Q * 120 * ?ea / (Q * 120 * ?ea + Q * 120 * ?eb) = ?ea / (?ea + ?eb)"
  proof -
    have "Q * 120 * ?ea + Q * 120 * ?eb = (Q * 120) * (?ea + ?eb)"
      by (simp add: algebra_simps)
    then show ?thesis using assms by simp
  qed
  finally show ?thesis .
qed

lemma linspace2_nth:
  "i \<le> vdivs2 \<Longrightarrow> linspace vmin vmax (Suc vdivs2) ! i = Fin (grid_v2 i)"
  by (simp add: linspace_def grid_v2_def less_Suc_eq_le del: upt_Suc)

lemma NaF2_gateX_nth:
  assumes "i \<le> vdivs2"
  shows "tableA (gateX (make_channel_NaF2 Q)) ! i
           = NaF2_m_infExpr Q (Fin (grid_v2 i)) / NaF2_m_tauExpr Q (Fin (grid_v2 i))"
    and "tableB (gateX (make_channel_NaF2 Q)) ! i
           = Fin 1 / NaF2_m_tauExpr Q (Fin (grid_v2 i))"
proof -
  have len: "i < length (linspace vmin vmax (vdivs2 + 1))"
    using assms by (simp add: linspace_def)
  show "tableA (gateX (make_channel_NaF2 Q)) ! i
           = NaF2_m_infExpr Q (Fin (grid_v2 i)) / NaF2_m_tauExpr Q (Fin (grid_v2 i))"
    using len by (simp add: make_channel_NaF2_def tabFillExpr_def Let_def
        linspace2_nth [OF assms])
  show "tableB (gateX (make_channel_NaF2 Q)) ! i
           = Fin 1 / NaF2_m_tauExpr Q (Fin (grid_v2 i))"
    using len by (simp add: make_channel_NaF2_def tabFillExpr_def Let_def
        linspace2_nth [OF assms])
qed

lemma NaF2_gateY_nth:
  assumes "i \<le> vdivs2"
  shows "tableA (gateY (make_channel_NaF2 Q)) ! i
           = NaF2_h_infExpr Q (Fin (grid_v2 i)) / NaF2_h_tauExpr Q (Fin (grid_v2 i))"
    and "tableB (gateY (make_channel_NaF2 Q)) ! i
           = Fin 1 / NaF2_h_tauExpr Q (Fin (grid_v2 i))"
proof -
  have len: "i < length (linspace vmin vmax (vdivs2 + 1))"
    using assms by (simp add: linspace_def)
  show "tableA (gateY (make_channel_NaF2 Q)) ! i
           = NaF2_h_infExpr Q (Fin (grid_v2 i)) / NaF2_h_tauExpr Q (Fin (grid_v2 i))"
    using len by (simp add: make_channel_NaF2_def tabFillExpr_def Let_def
        linspace2_nth [OF assms])
  show "tableB (gateY (make_channel_NaF2 Q)) ! i
           = Fin 1 / NaF2_h_tauExpr Q (Fin (grid_v2 i))"
    using len by (simp add: make_channel_NaF2_def tabFillExpr_def Let_def
        linspace2_nth [OF assms])
qed

section \<open>NaF: the zero-denominator guard\<close>












section \<open>NaF: the order of the tau clamp and the Q10 scaling\<close>

lemma q10_mul_gt_one: "1 < q10_mul"
  by (simp add: q10_mul_def Q10_def temp_def temp_exp_def)

lemma exp_7986_bound: "24 < exp (7.986 :: real)"
proof -
  have e: "exp (7.986 :: real) = exp 3.993 * exp 3.993"
    by (simp add: exp_add [symmetric])
  have "4.993 \<le> exp (3.993 :: real)"
    using exp_ge_add_one_self [of "3.993 :: real"] by simp
  then have "4.993 * 4.993 \<le> exp (3.993 :: real) * exp 3.993"
    by (intro mult_mono) simp_all
  then show ?thesis
    unfolding e by simp
qed

lemma grid_V_0: "grid_V 0 = - 0.16"
  by (simp add: grid_V_def vmin_def v_offset_def)

lemma NaF_m_sum_at_0:
  "20000 < 1500 * exp (81 * (grid_V 0 + 39 / 1000)) + 1500 * exp (- 66 * (grid_V 0 + 39 / 1000))"
proof -
  have "- 66 * (grid_V 0 + 39 / 1000) = 7.986"
    by (simp add: grid_V_0)
  then have "exp (- 66 * (grid_V 0 + 39 / 1000)) = exp (7.986 :: real)"
    by (simp only:)
  then have "24 < exp (- 66 * (grid_V 0 + 39 / 1000))"
    using exp_7986_bound by (simp only:)
  then have "1500 * 24 < 1500 * exp (- 66 * (grid_V 0 + 39 / 1000))"
    by (simp only: mult_less_cancel_left_pos zero_less_numeral)
  moreover have "0 < 1500 * exp (81 * (grid_V 0 + 39 / 1000))"
    by simp
  ultimately show ?thesis
    by linarith
qed

lemma max_div_pos:
  assumes "0 < (q::real)"
  shows "max t c / q = max (t / q) (c / q)"
  using assms by (simp add: max_def divide_le_cancel)

lemma NaF_m_tableB:
  assumes "0 < q" "i \<le> vdivs"
  shows "tableB (gateX (make_channel_NaF q)) ! i
         = Fin (q / max (1 / (1500 * exp (81 * (grid_V i + 39 / 1000))
                               + 1500 * exp (- 66 * (grid_V i + 39 / 1000))))
                        (5 / 100000))"
proof -
  let ?s = "1500 * exp (81 * (grid_V i + 39 / 1000)) + 1500 * exp (- 66 * (grid_V i + 39 / 1000))"
  have s: "0 < ?s" by (rule NaF_m_sum_pos)
  have "0 < max (1 / ?s) (5 / 100000) / q"
    by (rule tau_floor_pos [OF assms(1)]) simp
  then have t: "max (1 / ?s) (5 / 100000) / q \<noteq> 0"
    by (metis less_irrefl)
  show ?thesis
    by (simp only: NaF_gateX_nth [OF assms(2)] V_grid_nth' [OF assms(2)] NaF_alpha_m_Fin
        NaF_beta_m_Fin NaF_tau_m_Fin [OF s assms(1)] Fin_div [OF t]) simp
qed


lemma NaF_h_tableB:
  assumes "0 < q" "i \<le> vdivs"
  shows "tableB (gateY (make_channel_NaF q)) ! i
         = Fin (q / max (1 / (120 * exp (- 89 * (grid_V i + 0.05))
                               + 120 * exp (89 * (grid_V i + 0.05))))
                        (2.25 / 10000))"
proof -
  let ?s = "120 * exp (- 89 * (grid_V i + 0.05)) + 120 * exp (89 * (grid_V i + 0.05))"
  have s: "0 < ?s" by (rule NaF_h_sum_pos)
  have "0 < max (1 / ?s) (2.25 / 10000) / q"
    by (rule tau_floor_pos [OF assms(1)]) simp
  then have t: "max (1 / ?s) (2.25 / 10000) / q \<noteq> 0"
    by (metis less_irrefl)
  show ?thesis
    by (simp only: NaF_gateY_nth [OF assms(2)] V_grid_nth' [OF assms(2)] NaF_alpha_h_Fin
        NaF_beta_h_Fin NaF_tau_h_Fin [OF s assms(1)] Fin_div [OF t]) simp
qed

lemma max_floor_nonzero:
  assumes "0 < (c::real)"
  shows "max t c \<noteq> 0"
proof -
  have "0 < max t c" using assms by (simp add: less_max_iff_disj)
  then show ?thesis by (metis less_irrefl)
qed

lemma inv_max_scaled:
  assumes "0 < (q::real)"
  shows "1 / max (t / q) (c / q) = q / max t c"
proof -
  have "max (t / q) (c / q) = max t c / q"
    by (rule max_div_pos [OF assms, symmetric])
  then show ?thesis by simp
qed

lemma div_gt_one_less:
  assumes "0 < (t::real)" "1 < q"
  shows "t / q < t"
proof -
  have "t * 1 < t * q" using assms by (simp only: mult_less_cancel_left_pos)
  then show ?thesis using assms by (simp add: field_simps)
qed

lemma clamp_then_scale:
  assumes "0 < q" "0 < s" "0 < c"
  shows "Fin 1 / (fmaximum (Fin 1 / Fin s) (Fin c) / Fin q) = Fin (q / max (1 / s) c)"
    and "Fin 1 / fmaximum (Fin 1 / Fin s / Fin q) (Fin (c / q)) = Fin (q / max (1 / s) c)"
proof -
  have q: "q \<noteq> 0" and s: "s \<noteq> 0" using assms by simp_all
  have m: "max (1 / s) c \<noteq> 0" by (rule max_floor_nonzero [OF assms(3)])
  have m2: "max (1 / s / q) (c / q) \<noteq> 0"
    by (rule max_floor_nonzero) (simp add: assms)
  have mq: "max (1 / s) c / q \<noteq> 0" using m q by simp
  have "Fin 1 / (fmaximum (Fin 1 / Fin s) (Fin c) / Fin q) = Fin (1 / (max (1 / s) c / q))"
    by (simp only: Fin_div [OF s] fmaximum_Fin Fin_div [OF q] Fin_div [OF mq])
  then show "Fin 1 / (fmaximum (Fin 1 / Fin s) (Fin c) / Fin q) = Fin (q / max (1 / s) c)"
    by simp
  have "1 / max (1 / s / q) (c / q) = q / max (1 / s) c"
    by (rule inv_max_scaled [OF assms(1)])
  moreover have "Fin 1 / fmaximum (Fin 1 / Fin s / Fin q) (Fin (c / q))
                 = Fin (1 / max (1 / s / q) (c / q))"
    by (simp only: Fin_div [OF s] Fin_div [OF q] fmaximum_Fin Fin_div [OF m2])
  ultimately show "Fin 1 / fmaximum (Fin 1 / Fin s / Fin q) (Fin (c / q))
                   = Fin (q / max (1 / s) c)"
    by (simp only:)
qed

lemma NaF_m_xinf:
  assumes "0 < q" "i \<le> vdivs"
  shows "table_xinf (gateX (make_channel_NaF q)) i
         = NaF_inf_m (NaF_alpha_m (V_grid ! i)) (NaF_beta_m (V_grid ! i))"
proof -
  obtain tm where tm: "0 < tm"
      "NaF_tau_m q (NaF_alpha_m (Fin (grid_V i))) (NaF_beta_m (Fin (grid_V i))) = Fin tm"
    using NaF_m_tau_at [OF assms(1)] by blast
  obtain ym where ym:
      "NaF_inf_m (NaF_alpha_m (Fin (grid_V i))) (NaF_beta_m (Fin (grid_V i))) = Fin ym"
    using NaF_m_inf_at by blast
  have tm0: "tm \<noteq> 0" using tm(1) by simp
  show ?thesis
    by (simp add: table_xinf_def NaF_gateX_nth [OF assms(2)] V_grid_nth' [OF assms(2)]
        tm(2) ym tau_inf_recover [OF tm0])
qed

lemma NaF_h_xinf:
  assumes "0 < q" "i \<le> vdivs"
  shows "table_xinf (gateY (make_channel_NaF q)) i
         = NaF_inf_h (NaF_alpha_h (V_grid ! i)) (NaF_beta_h (V_grid ! i))"
proof -
  obtain th where th: "0 < th"
      "NaF_tau_h q (NaF_alpha_h (Fin (grid_V i))) (NaF_beta_h (Fin (grid_V i))) = Fin th"
    using NaF_h_tau_at [OF assms(1)] by blast
  obtain yh where yh:
      "NaF_inf_h (NaF_alpha_h (Fin (grid_V i))) (NaF_beta_h (Fin (grid_V i))) = Fin yh"
    using NaF_h_inf_at by blast
  have th0: "th \<noteq> 0" using th(1) by simp
  show ?thesis
    by (simp add: table_xinf_def NaF_gateY_nth [OF assms(2)] V_grid_nth' [OF assms(2)]
        th(2) yh tau_inf_recover [OF th0])
qed

lemma NaF2_m_xinf:
  assumes "0 < Q" "j \<le> vdivs2"
  shows "table_xinf (gateX (make_channel_NaF2 Q)) j = NaF2_m_infExpr Q (Fin (grid_v2 j))"
proof -
  let ?s = "Q * 1500 * exp (81 * (grid_v2 j - 10 / 1000 + 39 / 1000))
            + Q * 1500 * exp (- 66 * (grid_v2 j - 10 / 1000 + 39 / 1000))"
  have t: "max (1 / ?s) (1 / 100000) \<noteq> 0" by (rule max_floor_nonzero) simp
  show ?thesis
    by (simp only: table_xinf_def NaF2_gateX_nth [OF assms(2)] NaF2_m_tauExpr_Fin [OF assms(1)]
        NaF2_m_infExpr_Fin [OF assms(1)] tau_inf_recover [OF t])
qed

lemma NaF2_h_xinf:
  assumes "0 < Q" "j \<le> vdivs2"
  shows "table_xinf (gateY (make_channel_NaF2 Q)) j = NaF2_h_infExpr Q (Fin (grid_v2 j))"
proof -
  let ?s = "Q * 120 * exp (- 89 * (grid_v2 j - 10 / 1000 + 0.05))
            + Q * 120 * exp (89 * (grid_v2 j - 10 / 1000 + 0.05))"
  have t: "max (1 / ?s) (0.045 / 1000) \<noteq> 0" by (rule max_floor_nonzero) simp
  show ?thesis
    by (simp only: table_xinf_def NaF2_gateY_nth [OF assms(2)] NaF2_h_tauExpr_Fin [OF assms(1)]
        NaF2_h_infExpr_Fin [OF assms(1)] tau_inf_recover [OF t])
qed

text \<open>
  At the first grid sample the unscaled tau of the m-gate is below the floor
  \<open>5e-5\<close>.  The code stores \<open>tableB = q10_mul / 5e-5\<close>; a clamp applied after the
  scaling would store \<open>1 / 5e-5\<close>.
\<close>

theorem NaF_clamp_after_scaling_counterexample:
  "tableB (gateX (make_channel_NaF q10_mul)) ! 0 = Fin (20000 * q10_mul)
   \<and> Fin 1 / fmaximum (Fin 1 / (NaF_alpha_m (V_grid ! 0) + NaF_beta_m (V_grid ! 0))
                        / Fin q10_mul) (Fin (5 / 100000)) = Fin 20000
   \<and> tableB (gateX (make_channel_NaF q10_mul)) ! 0
       \<noteq> Fin 1 / fmaximum (Fin 1 / (NaF_alpha_m (V_grid ! 0) + NaF_beta_m (V_grid ! 0))
                            / Fin q10_mul) (Fin (5 / 100000))"
proof -
  let ?s = "1500 * exp (81 * (grid_V 0 + 39 / 1000)) + 1500 * exp (- 66 * (grid_V 0 + 39 / 1000))"
  have big: "20000 < ?s" by (rule NaF_m_sum_at_0)
  have s0: "?s \<noteq> 0" and spos: "0 < ?s" using big by simp_all
  have q: "q10_mul \<noteq> 0" "0 < q10_mul" using q10_mul_pos by simp_all
  have small: "1 / ?s < 5 / 100000"
    using big spos by (simp add: field_simps)
  then have m1: "max (1 / ?s) (5 / 100000) = 5 / 100000"
    by (simp add: max_def)
  have "0 < 1 / ?s" using spos by simp
  then have "1 / ?s / q10_mul < 1 / ?s"
    by (rule div_gt_one_less [OF _ q10_mul_gt_one])
  then have m2: "max (1 / ?s / q10_mul) (5 / 100000) = 5 / 100000"
    using small by (simp add: max_def)
  have A: "tableB (gateX (make_channel_NaF q10_mul)) ! 0 = Fin (20000 * q10_mul)"
    by (simp only: NaF_m_tableB [OF q(2) le0] m1) simp
  have V: "V_grid ! 0 = Fin (grid_V 0)" by (rule V_grid_nth') simp
  have "Fin 1 / fmaximum (Fin 1 / (NaF_alpha_m (V_grid ! 0) + NaF_beta_m (V_grid ! 0))
                        / Fin q10_mul) (Fin (5 / 100000))
        = Fin 1 / Fin (max (1 / ?s / q10_mul) (5 / 100000))"
    by (simp only: V NaF_alpha_m_Fin NaF_beta_m_Fin Fin_add Fin_div [OF s0] Fin_div [OF q(1)]
        fmaximum_Fin)
  also have "\<dots> = Fin 20000"
    by (simp only: m2) (simp add: Fin_div)
  finally have B: "Fin 1 / fmaximum (Fin 1 / (NaF_alpha_m (V_grid ! 0) + NaF_beta_m (V_grid ! 0))
                        / Fin q10_mul) (Fin (5 / 100000)) = Fin 20000" .
  have C: "Fin (20000 * q10_mul) \<noteq> Fin 20000"
    using q10_mul_gt_one by simp
  show ?thesis
    unfolding A B using C by simp
qed


text \<open>
  Claim C4, as amended.  In granule\_cell\_hhchannel.py the floor is applied to the
  unscaled tau and the clamped value is then divided by the Q10 factor: \<open>tableB\<close> is
  \<open>1 / (max(1 / (alpha + beta), floor) / q)\<close>, which equals
  \<open>1 / max(tau_scaled, floor / q)\<close> for the scaled time constant
  \<open>tau_scaled = 1 / (alpha + beta) / q\<close> (floors \<open>5e-5\<close> for m, \<open>2.25e-4\<close> for h).  In
  granule\_cell\_hhchannel2.py the rates carry the factor and the clamp comes after:
  \<open>tableB = 1 / max(1 / (q * alpha + q * beta), floor)\<close> (floors \<open>1e-5\<close> and
  \<open>0.045e-3\<close>).  In both files \<open>tableA / tableB\<close> is \<open>alpha / (alpha + beta)\<close> of
  the unscaled rates at every grid point, whether or not the floor is active.
\<close>

theorem NaF_clamp_order:
  assumes "0 < q" and "i \<le> vdivs" and "j \<le> vdivs2"
  shows "tableB (gateX (make_channel_NaF q)) ! i
           = Fin 1 / (fmaximum (Fin 1 / (NaF_alpha_m (V_grid ! i) + NaF_beta_m (V_grid ! i)))
                        (Fin (5 / 100000)) / Fin q)
       \<and> tableB (gateX (make_channel_NaF q)) ! i
           = Fin 1 / fmaximum (Fin 1 / (NaF_alpha_m (V_grid ! i) + NaF_beta_m (V_grid ! i)) / Fin q)
                       (Fin (5 / 100000 / q))
       \<and> table_xinf (gateX (make_channel_NaF q)) i
           = NaF_alpha_m (V_grid ! i) / (NaF_alpha_m (V_grid ! i) + NaF_beta_m (V_grid ! i))
       \<and> tableB (gateY (make_channel_NaF q)) ! i
           = Fin 1 / (fmaximum (Fin 1 / (NaF_alpha_h (V_grid ! i) + NaF_beta_h (V_grid ! i)))
                        (Fin (2.25 / 10000)) / Fin q)
       \<and> tableB (gateY (make_channel_NaF q)) ! i
           = Fin 1 / fmaximum (Fin 1 / (NaF_alpha_h (V_grid ! i) + NaF_beta_h (V_grid ! i)) / Fin q)
                       (Fin (2.25 / 10000 / q))
       \<and> table_xinf (gateY (make_channel_NaF q)) i
           = NaF_alpha_h (V_grid ! i) / (NaF_alpha_h (V_grid ! i) + NaF_beta_h (V_grid ! i))
       \<and> NaF2_alpha_m q (Fin (grid_v2 j)) = Fin q * NaF2_alpha_m 1 (Fin (grid_v2 j))
       \<and> NaF2_beta_m q (Fin (grid_v2 j)) = Fin q * NaF2_beta_m 1 (Fin (grid_v2 j))
       \<and> tableB (gateX (make_channel_NaF2 q)) ! j
           = Fin 1 / expr_max (Fin 1 / (NaF2_alpha_m q (Fin (grid_v2 j))
                                        + NaF2_beta_m q (Fin (grid_v2 j))))
                       (Fin (1 / 100000))
       \<and> table_xinf (gateX (make_channel_NaF2 q)) j
           = NaF2_alpha_m 1 (Fin (grid_v2 j))
             / (NaF2_alpha_m 1 (Fin (grid_v2 j)) + NaF2_beta_m 1 (Fin (grid_v2 j)))
       \<and> NaF2_alpha_h q (Fin (grid_v2 j)) = Fin q * NaF2_alpha_h 1 (Fin (grid_v2 j))
       \<and> NaF2_beta_h q (Fin (grid_v2 j)) = Fin q * NaF2_beta_h 1 (Fin (grid_v2 j))
       \<and> tableB (gateY (make_channel_NaF2 q)) ! j
           = Fin 1 / expr_max (Fin 1 / (NaF2_alpha_h q (Fin (grid_v2 j))
                                        + NaF2_beta_h q (Fin (grid_v2 j))))
                       (Fin (0.045 / 1000))
       \<and> table_xinf (gateY (make_channel_NaF2 q)) j
           = NaF2_alpha_h 1 (Fin (grid_v2 j))
             / (NaF2_alpha_h 1 (Fin (grid_v2 j)) + NaF2_beta_h 1 (Fin (grid_v2 j)))"
proof -
  have V: "V_grid ! i = Fin (grid_V i)" by (rule V_grid_nth' [OF assms(2)])
  have one: "(0::real) < 1" by simp
  have sm: "0 < 1500 * exp (81 * (grid_V i + 39 / 1000))
                + 1500 * exp (- 66 * (grid_V i + 39 / 1000))"
    by (rule NaF_m_sum_pos)
  have sh: "0 < 120 * exp (- 89 * (grid_V i + 0.05)) + 120 * exp (89 * (grid_V i + 0.05))"
    by (rule NaF_h_sum_pos)
  have cm: "(0::real) < 5 / 100000" and ch: "(0::real) < 2.25 / 10000" by simp_all
  have m1: "tableB (gateX (make_channel_NaF q)) ! i
           = Fin 1 / (fmaximum (Fin 1 / (NaF_alpha_m (V_grid ! i) + NaF_beta_m (V_grid ! i)))
                        (Fin (5 / 100000)) / Fin q)"
    by (simp only: V NaF_alpha_m_Fin NaF_beta_m_Fin Fin_add clamp_then_scale(1) [OF assms(1) sm cm]
        NaF_m_tableB [OF assms(1) assms(2)])
  have m2: "tableB (gateX (make_channel_NaF q)) ! i
           = Fin 1 / fmaximum (Fin 1 / (NaF_alpha_m (V_grid ! i) + NaF_beta_m (V_grid ! i)) / Fin q)
                       (Fin (5 / 100000 / q))"
    by (simp only: V NaF_alpha_m_Fin NaF_beta_m_Fin Fin_add clamp_then_scale(2) [OF assms(1) sm cm]
        NaF_m_tableB [OF assms(1) assms(2)])
  have m3: "table_xinf (gateX (make_channel_NaF q)) i
           = NaF_alpha_m (V_grid ! i) / (NaF_alpha_m (V_grid ! i) + NaF_beta_m (V_grid ! i))"
    by (simp only: NaF_m_xinf [OF assms(1) assms(2)] NaF_inf_m_def)
  have h1: "tableB (gateY (make_channel_NaF q)) ! i
           = Fin 1 / (fmaximum (Fin 1 / (NaF_alpha_h (V_grid ! i) + NaF_beta_h (V_grid ! i)))
                        (Fin (2.25 / 10000)) / Fin q)"
    by (simp only: V NaF_alpha_h_Fin NaF_beta_h_Fin Fin_add clamp_then_scale(1) [OF assms(1) sh ch]
        NaF_h_tableB [OF assms(1) assms(2)])
  have h2: "tableB (gateY (make_channel_NaF q)) ! i
           = Fin 1 / fmaximum (Fin 1 / (NaF_alpha_h (V_grid ! i) + NaF_beta_h (V_grid ! i)) / Fin q)
                       (Fin (2.25 / 10000 / q))"
    by (simp only: V NaF_alpha_h_Fin NaF_beta_h_Fin Fin_add clamp_then_scale(2) [OF assms(1) sh ch]
        NaF_h_tableB [OF assms(1) assms(2)])
  have h3: "table_xinf (gateY (make_channel_NaF q)) i
           = NaF_alpha_h (V_grid ! i) / (NaF_alpha_h (V_grid ! i) + NaF_beta_h (V_grid ! i))"
    by (simp only: NaF_h_xinf [OF assms(1) assms(2)] NaF_inf_h_def)
  have r: "NaF2_alpha_m q (Fin (grid_v2 j)) = Fin q * NaF2_alpha_m 1 (Fin (grid_v2 j))"
      "NaF2_beta_m q (Fin (grid_v2 j)) = Fin q * NaF2_beta_m 1 (Fin (grid_v2 j))"
      "NaF2_alpha_h q (Fin (grid_v2 j)) = Fin q * NaF2_alpha_h 1 (Fin (grid_v2 j))"
      "NaF2_beta_h q (Fin (grid_v2 j)) = Fin q * NaF2_beta_h 1 (Fin (grid_v2 j))"
    by (simp_all add: NaF2_alpha_m_Fin NaF2_beta_m_Fin NaF2_alpha_h_Fin NaF2_beta_h_Fin)
  have x1: "tableB (gateX (make_channel_NaF2 q)) ! j
           = Fin 1 / expr_max (Fin 1 / (NaF2_alpha_m q (Fin (grid_v2 j))
                                        + NaF2_beta_m q (Fin (grid_v2 j))))
                       (Fin (1 / 100000))"
    using NaF2_m_sum_pos [OF assms(1), of "grid_v2 j"]
    by (simp add: NaF2_gateX_nth [OF assms(3)] NaF2_m_tauExpr_def Let_def NaF2_m_tau_of_def
        NaF2_alpha_m_Fin NaF2_beta_m_Fin)
  have y1: "tableB (gateY (make_channel_NaF2 q)) ! j
           = Fin 1 / expr_max (Fin 1 / (NaF2_alpha_h q (Fin (grid_v2 j))
                                        + NaF2_beta_h q (Fin (grid_v2 j))))
                       (Fin (0.045 / 1000))"
    using NaF2_h_sum_pos [OF assms(1), of "grid_v2 j"]
    by (simp add: NaF2_gateY_nth [OF assms(3)] NaF2_h_tauExpr_def Let_def NaF2_h_tau_of_def
        NaF2_alpha_h_Fin NaF2_beta_h_Fin)
  have x2: "table_xinf (gateX (make_channel_NaF2 q)) j
           = NaF2_alpha_m 1 (Fin (grid_v2 j))
             / (NaF2_alpha_m 1 (Fin (grid_v2 j)) + NaF2_beta_m 1 (Fin (grid_v2 j)))"
    by (simp only: NaF2_m_xinf [OF assms(1) assms(3)] NaF2_m_infExpr_Fin [OF assms(1)]
        NaF2_m_infExpr_Fin [OF one, symmetric]) (simp only: NaF2_m_infExpr_def Let_def)
  have y2: "table_xinf (gateY (make_channel_NaF2 q)) j
           = NaF2_alpha_h 1 (Fin (grid_v2 j))
             / (NaF2_alpha_h 1 (Fin (grid_v2 j)) + NaF2_beta_h 1 (Fin (grid_v2 j)))"
    by (simp only: NaF2_h_xinf [OF assms(1) assms(3)] NaF2_h_infExpr_Fin [OF assms(1)]
        NaF2_h_infExpr_Fin [OF one, symmetric]) (simp only: NaF2_h_infExpr_def Let_def)
  show ?thesis
    using m1 m2 m3 h1 h2 h3 r x1 x2 y1 y2 by (intro conjI) assumption+
qed

theorem NaF_clamp_order_witness:
  "(0::real) < 2 \<and> (0::nat) \<le> vdivs \<and> (0::nat) \<le> vdivs2
   \<and> tableB (gateX (make_channel_NaF 2)) ! 0
       = Fin 1 / fmaximum (Fin 1 / (NaF_alpha_m (V_grid ! 0) + NaF_beta_m (V_grid ! 0)) / Fin 2)
                   (Fin (5 / 100000 / 2))
   \<and> table_xinf (gateX (make_channel_NaF 2)) 0
       = NaF_alpha_m (V_grid ! 0) / (NaF_alpha_m (V_grid ! 0) + NaF_beta_m (V_grid ! 0))
   \<and> tableB (gateX (make_channel_NaF2 2)) ! 0
       = Fin 1 / expr_max (Fin 1 / (NaF2_alpha_m 2 (Fin (grid_v2 0))
                                    + NaF2_beta_m 2 (Fin (grid_v2 0))))
                   (Fin (1 / 100000))"
proof -
  have h: "(0::real) < 2" "(0::nat) \<le> vdivs" "(0::nat) \<le> vdivs2"
    by simp_all
  show ?thesis
    using NaF_clamp_order [OF h] h by (elim conjE) (intro conjI, assumption+)
qed

section \<open>KA: the Q10 factor on tau\<close>

lemma Q10_MUL_gt_one: "1 < Q10_MUL"
  by (simp add: Q10_MUL_def TEMP_0_def TEMP_1_def)

lemma KA_m_tau_Fin:
  "KA_m_tau (Fin x) = Fin (0.41 / 1000 * exp (- (x - 10 / 1000 + 43.5 / 1000) / 0.0428)
                           + 0.167 / 1000)"
  by (simp add: KA_m_tau_def Fin_div)

lemma KA_h_tau_Fin:
  "KA_h_tau (Fin x)
   = Fin (0.001 * (10.8 + 30 * (x - 10 / 1000)
                   + 1 / (57.9 * exp ((x - 10 / 1000) * 127)
                          + 134 / 1000000 * exp (- 59 * (x - 10 / 1000)))))"
proof -
  have "0 < 57.9 * exp ((x - 10 / 1000) * 127) + 134 / 1000000 * exp (- 59 * (x - 10 / 1000))"
    by (intro add_pos_pos mult_pos_pos exp_gt_zero) simp_all
  then have "57.9 * exp ((x - 10 / 1000) * 127) + 134 / 1000000 * exp (- 59 * (x - 10 / 1000)) \<noteq> 0"
    by (metis less_irrefl)
  then show ?thesis
    by (simp add: KA_h_tau_def Fin_div)
qed

lemma KA_m_tau_pos:
  "0 < 0.41 / 1000 * exp (- (x - 10 / 1000 + 43.5 / 1000) / 0.0428) + 0.167 / (1000::real)"
  by (intro add_pos_pos mult_pos_pos exp_gt_zero) simp_all

lemma scaled_up:
  assumes "0 < (t::real)" "1 < Q"
  shows "t < Q * t"
  using assms by simp

text \<open>
  Claim C5 at the m-gate and h-gate of \<open>make_channel_KA\<close>
  (granule\_cell\_hhchannel2.py), at \<open>v = 0.01\<close>: the expression
  \<open>~(tau := ..., Q10_MUL * tau)\<close> multiplies tau by the Q10 factor, so the corrected
  time constant is larger than the uncorrected one, where the claim has it divided by
  the factor.  The NaF tau of granule\_cell\_hhchannel.py is divided by the factor.
\<close>

theorem KA_tau_multiplied_by_Q10:
  "KA_m_tauExpr Q10_MUL (Fin (10 / 1000)) = Fin Q10_MUL * KA_m_tau (Fin (10 / 1000))
   \<and> KA_m_tauExpr Q10_MUL (Fin (10 / 1000))
       = Fin (Q10_MUL * (0.41 / 1000 * exp (- (43.5 / 1000) / 0.0428) + 0.167 / 1000))
   \<and> fless (KA_m_tau (Fin (10 / 1000))) (KA_m_tauExpr Q10_MUL (Fin (10 / 1000)))
   \<and> KA_h_tauExpr Q10_MUL (Fin (10 / 1000)) = Fin Q10_MUL * KA_h_tau (Fin (10 / 1000))
   \<and> fless (KA_h_tau (Fin (10 / 1000))) (KA_h_tauExpr Q10_MUL (Fin (10 / 1000)))
   \<and> 1 < Q10_MUL
   \<and> NaF_tau_m q10_mul (NaF_alpha_m (V_grid ! 0)) (NaF_beta_m (V_grid ! 0))
       = NaF_tau_m 1 (NaF_alpha_m (V_grid ! 0)) (NaF_beta_m (V_grid ! 0)) / Fin q10_mul"
proof -
  have m: "KA_m_tauExpr Q10_MUL (Fin (10 / 1000)) = Fin Q10_MUL * KA_m_tau (Fin (10 / 1000))"
    by (simp add: KA_m_tauExpr_def)
  have h: "KA_h_tauExpr Q10_MUL (Fin (10 / 1000)) = Fin Q10_MUL * KA_h_tau (Fin (10 / 1000))"
    by (simp add: KA_h_tauExpr_def)
  have mv: "KA_m_tau (Fin (10 / 1000))
            = Fin (0.41 / 1000 * exp (- (43.5 / 1000) / 0.0428) + 0.167 / 1000)"
    by (simp add: KA_m_tau_Fin)
  have mpos: "0 < 0.41 / 1000 * exp (- (43.5 / 1000) / 0.0428) + 0.167 / (1000::real)"
    using KA_m_tau_pos [of "10 / 1000"] by simp
  have hv: "KA_h_tau (Fin (10 / 1000)) = Fin (0.001 * (10.8 + 1 / (57.9 + 134 / 1000000)))"
    by (simp add: KA_h_tau_Fin)
  have hpos: "(0::real) < 0.001 * (10.8 + 1 / (57.9 + 134 / 1000000))"
    by simp
  have m2: "KA_m_tauExpr Q10_MUL (Fin (10 / 1000))
            = Fin (Q10_MUL * (0.41 / 1000 * exp (- (43.5 / 1000) / 0.0428) + 0.167 / 1000))"
    by (simp only: m mv Fin_mul)
  have m3: "fless (KA_m_tau (Fin (10 / 1000))) (KA_m_tauExpr Q10_MUL (Fin (10 / 1000)))"
    by (simp only: m2 mv fless.simps scaled_up [OF mpos Q10_MUL_gt_one])
  have h3: "fless (KA_h_tau (Fin (10 / 1000))) (KA_h_tauExpr Q10_MUL (Fin (10 / 1000)))"
    by (simp only: h hv Fin_mul fless.simps scaled_up [OF hpos Q10_MUL_gt_one])
  have V: "V_grid ! 0 = Fin (grid_V 0)" by (rule V_grid_nth') simp
  have q: "q10_mul \<noteq> 0" using q10_mul_pos by simp
  have n: "NaF_tau_m q10_mul (NaF_alpha_m (V_grid ! 0)) (NaF_beta_m (V_grid ! 0))
       = NaF_tau_m 1 (NaF_alpha_m (V_grid ! 0)) (NaF_beta_m (V_grid ! 0)) / Fin q10_mul"
    using NaF_m_sum_pos [of "grid_V 0"] q10_mul_pos
    by (simp add: V NaF_alpha_m_Fin NaF_beta_m_Fin NaF_tau_m_Fin Fin_div [OF q])
  show ?thesis
    using m m2 m3 h h3 Q10_MUL_gt_one n by (intro conjI) assumption+
qed

section \<open>KDr m-gate: the crossing point of alpha and beta\<close>

lemma KDr_alpha_Fin: "KDr_alpha (Fin x) = Fin (170 * exp (73 * (x - 10 / 1000 + 38 / 1000)))"
  by (simp add: KDr_alpha_def)

lemma KDr_beta_Fin: "KDr_beta (Fin x) = Fin (170 * exp (- 18 * (x - 10 / 1000 + 38 / 1000)))"
  by (simp add: KDr_beta_def)

lemma half_iff_equal:
  assumes "0 < (a::real)" "0 < b"
  shows "a / (a + b) = 1 / 2 \<longleftrightarrow> a = b"
  using assms by (simp add: field_simps) linarith

lemma KDr_xinf_Fin:
  "gate_xinf KDr_alpha KDr_beta (Fin x)
   = Fin (170 * exp (73 * (x - 10 / 1000 + 38 / 1000))
          / (170 * exp (73 * (x - 10 / 1000 + 38 / 1000))
             + 170 * exp (- 18 * (x - 10 / 1000 + 38 / 1000))))"
  by (simp only: gate_xinf_def Let_def KDr_alpha_Fin KDr_beta_Fin)
     (rule alpha_beta_xinf; simp)

lemma KDr_tau_Fin:
  "gate_tau KDr_alpha KDr_beta (Fin x)
   = Fin (1 / (170 * exp (73 * (x - 10 / 1000 + 38 / 1000))
               + 170 * exp (- 18 * (x - 10 / 1000 + 38 / 1000))))"
  by (simp only: gate_tau_def Let_def KDr_alpha_Fin KDr_beta_Fin)
     (rule alpha_beta_tau; simp)

text \<open>
  At \<open>v = -0.038\<close> the rates of the KDr m-gate of granule\_cell.py are
  \<open>170 * exp(-0.73)\<close> and \<open>170 * exp(0.18)\<close>, not 170, and the steady state is not
  0.5.
\<close>

theorem KDr_at_minus_38mV_counterexample:
  "KDr_alpha (Fin (- 38 / 1000)) = Fin (170 * exp (- 0.73))
   \<and> KDr_beta (Fin (- 38 / 1000)) = Fin (170 * exp 0.18)
   \<and> KDr_alpha (Fin (- 38 / 1000)) \<noteq> Fin 170
   \<and> KDr_beta (Fin (- 38 / 1000)) \<noteq> Fin 170
   \<and> gate_xinf KDr_alpha KDr_beta (Fin (- 38 / 1000)) \<noteq> Fin (1 / 2)"
proof -
  have a: "KDr_alpha (Fin (- 38 / 1000)) = Fin (170 * exp (- 0.73))"
    by (simp add: KDr_alpha_Fin)
  have b: "KDr_beta (Fin (- 38 / 1000)) = Fin (170 * exp 0.18)"
    by (simp add: KDr_beta_Fin)
  have ea: "exp (- 0.73 :: real) \<noteq> 1" and eb: "exp (0.18 :: real) \<noteq> 1"
    by simp_all
  have ne: "170 * exp (- 0.73 :: real) \<noteq> 170 * exp 0.18"
    by simp
  have pa: "0 < 170 * exp (- 0.73 :: real)" and pb: "0 < 170 * exp (0.18 :: real)"
    by simp_all
  have x: "170 * exp (- 0.73 :: real) / (170 * exp (- 0.73) + 170 * exp 0.18) \<noteq> 1 / 2"
    using ne by (simp only: half_iff_equal [OF pa pb] not_False_eq_True)
  have gx: "gate_xinf KDr_alpha KDr_beta (Fin (- 38 / 1000))
            = Fin (170 * exp (- 0.73) / (170 * exp (- 0.73) + 170 * exp 0.18))"
    by (simp add: KDr_xinf_Fin)
  have c3: "KDr_alpha (Fin (- 38 / 1000)) \<noteq> Fin 170"
    unfolding a using ea by simp
  have c4: "KDr_beta (Fin (- 38 / 1000)) \<noteq> Fin 170"
    unfolding b using eb by simp
  have c5: "gate_xinf KDr_alpha KDr_beta (Fin (- 38 / 1000)) \<noteq> Fin (1 / 2)"
    using x by (simp only: gx fval.inject not_False_eq_True)
  show ?thesis
    using a b c3 c4 c5 by (intro conjI) assumption+
qed

text \<open>
  Claim C6, as amended.  The KDr m-gate as constructed in granule\_cell.py takes its
  rates at \<open>v - 0.01\<close>: \<open>alpha(v) = 170 * exp(73 * ((v - 0.01) + 0.038))\<close> and
  \<open>beta(v) = 170 * exp(-18 * ((v - 0.01) + 0.038))\<close> at every finite voltage.  The
  rates cross at \<open>v = -0.028\<close>: there \<open>alpha = beta = 170\<close>, \<open>xinf = 0.5\<close> and
  \<open>tau = 1 / 340\<close> exactly.
\<close>

theorem KDr_crossing_point:
  "KDr_alpha (Fin x) = Fin (170 * exp (73 * ((x - 10 / 1000) + 38 / 1000)))
   \<and> KDr_beta (Fin x) = Fin (170 * exp (- 18 * ((x - 10 / 1000) + 38 / 1000)))
   \<and> KDr_alpha (Fin (- 28 / 1000)) = Fin 170
   \<and> KDr_beta (Fin (- 28 / 1000)) = Fin 170
   \<and> gate_xinf KDr_alpha KDr_beta (Fin (- 28 / 1000)) = Fin (1 / 2)
   \<and> gate_tau KDr_alpha KDr_beta (Fin (- 28 / 1000)) = Fin (1 / 340)"
  by (simp add: KDr_alpha_Fin KDr_beta_Fin KDr_xinf_Fin KDr_tau_Fin)

section \<open>The gate state update: bounds, monotonicity, convergence\<close>

lemma gate_step_hold: "gate_step A 0 dt x = x"
  by (simp add: gate_step_def)

lemma gate_step_relax:
  assumes "B \<noteq> 0"
  shows "gate_step A B dt x = A / B + (x - A / B) * exp (- dt * B)"
  using assms by (simp add: gate_step_def Let_def)

lemma decay_factor:
  fixes dt B :: real
  assumes "0 < dt" "0 < B"
  shows "0 < exp (- dt * B)" and "exp (- dt * B) < 1"
proof -
  show "0 < exp (- dt * B)" by simp
  have "- dt * B < 0" using assms by (simp add: mult_pos_pos)
  then show "exp (- dt * B) < 1" by (simp only: exp_less_one_iff)
qed

lemma convex_between:
  fixes x y e :: real
  assumes "0 \<le> e" "e \<le> 1"
  shows "min x y \<le> y + (x - y) * e" and "y + (x - y) * e \<le> max x y"
proof -
  have d1: "y + (x - y) * e - x = (y - x) * (1 - e)" by (simp add: algebra_simps)
  have d2: "y + (x - y) * e - y = (x - y) * e" by simp
  show "min x y \<le> y + (x - y) * e"
  proof (cases "x \<le> y")
    case True
    then have "0 \<le> (y - x) * (1 - e)" using assms by simp
    then show ?thesis using True d1 by (simp add: min_def)
  next
    case False
    then have "0 \<le> (x - y) * e" using assms by simp
    then show ?thesis using False by (simp add: min_def)
  qed
  show "y + (x - y) * e \<le> max x y"
  proof (cases "x \<le> y")
    case True
    then have "(x - y) * e \<le> 0" using assms by (simp add: mult_nonpos_nonneg)
    then show ?thesis using True by (simp add: max_def)
  next
    case False
    then have "(y - x) * (1 - e) \<le> 0" using assms by (simp add: mult_nonpos_nonneg)
    then show ?thesis using False d1 by (simp add: max_def)
  qed
qed

lemma gate_step_between:
  assumes "0 < dt" "0 \<le> B"
  shows "min x (A / B) \<le> gate_step A B dt x" and "gate_step A B dt x \<le> max x (A / B)"
proof -
  have "min x (A / B) \<le> gate_step A B dt x \<and> gate_step A B dt x \<le> max x (A / B)"
  proof (cases "B = 0")
    case True
    then show ?thesis by (simp add: gate_step_def)
  next
    case False
    then have B: "0 < B" using assms(2) by simp
    have e: "0 \<le> exp (- dt * B)" "exp (- dt * B) \<le> 1"
      using decay_factor [OF assms(1) B] by simp_all
    show ?thesis
      unfolding gate_step_relax [OF False]
      using convex_between [OF e, where x = x and y = "A / B"] by simp
  qed
  then show "min x (A / B) \<le> gate_step A B dt x" and "gate_step A B dt x \<le> max x (A / B)"
    by simp_all
qed

lemma gate_step_unit:
  assumes "0 < dt" "0 \<le> B" "0 \<le> x" "x \<le> 1" "0 \<le> A / B" "A / B \<le> 1"
  shows "0 \<le> gate_step A B dt x" and "gate_step A B dt x \<le> 1"
proof -
  have "0 \<le> min x (A / B)" using assms by simp
  then show "0 \<le> gate_step A B dt x"
    using gate_step_between(1) [OF assms(1,2), where x = x and A = A] by linarith
  have "max x (A / B) \<le> 1" using assms by simp
  then show "gate_step A B dt x \<le> 1"
    using gate_step_between(2) [OF assms(1,2), where x = x and A = A] by linarith
qed

lemma gate_iter_unit:
  assumes "0 < dt" "0 \<le> B" "0 \<le> x" "x \<le> 1" "0 \<le> A / B" "A / B \<le> 1"
  shows "0 \<le> (gate_step A B dt ^^ n) x \<and> (gate_step A B dt ^^ n) x \<le> 1"
proof (induction n)
  case 0
  then show ?case using assms by simp
next
  case (Suc n)
  then show ?case
    using gate_step_unit [OF assms(1,2) _ _ assms(5,6), of "(gate_step A B dt ^^ n) x"]
    by simp
qed

lemma gate_iter_closed_form:
  assumes "B \<noteq> 0"
  shows "(gate_step A B dt ^^ n) x = A / B + (x - A / B) * exp (- dt * B) ^ n"
proof (induction n)
  case 0
  then show ?case by simp
next
  case (Suc n)
  have "(gate_step A B dt ^^ Suc n) x = gate_step A B dt ((gate_step A B dt ^^ n) x)"
    by simp
  also have "\<dots> = A / B + ((gate_step A B dt ^^ n) x - A / B) * exp (- dt * B)"
    by (rule gate_step_relax [OF assms])
  also have "\<dots> = A / B + ((x - A / B) * exp (- dt * B) ^ n) * exp (- dt * B)"
    unfolding Suc.IH by simp
  also have "\<dots> = A / B + (x - A / B) * exp (- dt * B) ^ Suc n"
    by (simp add: mult.assoc mult.commute)
  finally show ?case .
qed

lemma gate_iter_converges:
  assumes "0 < dt" "0 < B"
  shows "(\<lambda>n. (gate_step A B dt ^^ n) x) \<longlonglongrightarrow> A / B"
proof -
  have B: "B \<noteq> 0" using assms(2) by simp
  have e: "0 \<le> exp (- dt * B)" "exp (- dt * B) < 1"
    using decay_factor [OF assms] by simp_all
  have p: "(\<lambda>n. exp (- dt * B) ^ n) \<longlonglongrightarrow> 0"
    by (rule LIMSEQ_realpow_zero [OF e])
  have "(\<lambda>n. (x - A / B) * exp (- dt * B) ^ n) \<longlonglongrightarrow> (x - A / B) * 0"
    by (rule tendsto_mult_left [OF p])
  then have "(\<lambda>n. A / B + (x - A / B) * exp (- dt * B) ^ n)
             \<longlonglongrightarrow> A / B + (x - A / B) * 0"
    by (rule tendsto_add [OF tendsto_const])
  then have "(\<lambda>n. A / B + (x - A / B) * exp (- dt * B) ^ n) \<longlonglongrightarrow> A / B"
    by simp
  then show ?thesis
    by (simp only: gate_iter_closed_form [OF B])
qed

text \<open>
  Claim C7.  For \<open>dt > 0\<close>, \<open>B \<ge> 0\<close>, a state \<open>x\<close> in \<open>[0, 1]\<close> and \<open>xinf = A / B\<close> in
  \<open>[0, 1]\<close>: every iterate of the update lies in \<open>[0, 1]\<close>; each step lands between
  the current state and \<open>xinf\<close>, so the iterates move monotonically towards \<open>xinf\<close>
  without passing it; they converge to \<open>xinf\<close> when \<open>B > 0\<close>; and the state is held
  when \<open>B = 0\<close>.
\<close>

theorem gate_step_stable:
  assumes "0 < dt" and "0 \<le> B" and "0 \<le> x" and "x \<le> 1"
    and "0 \<le> A / B" and "A / B \<le> 1"
  shows "0 \<le> gate_step A B dt x \<and> gate_step A B dt x \<le> 1
       \<and> 0 \<le> (gate_step A B dt ^^ n) x \<and> (gate_step A B dt ^^ n) x \<le> 1
       \<and> min ((gate_step A B dt ^^ n) x) (A / B) \<le> (gate_step A B dt ^^ Suc n) x
       \<and> (gate_step A B dt ^^ Suc n) x \<le> max ((gate_step A B dt ^^ n) x) (A / B)
       \<and> (0 < B \<longrightarrow> (\<lambda>k. (gate_step A B dt ^^ k) x) \<longlonglongrightarrow> A / B)
       \<and> (B = 0 \<longrightarrow> gate_step A B dt x = x)"
  using gate_step_unit [OF assms] gate_iter_unit [OF assms, of n]
    gate_step_between [OF assms(1,2), where x = "(gate_step A B dt ^^ n) x" and A = A]
    gate_iter_converges [OF assms(1), of B A x] gate_step_hold [of A dt x]
  by simp

theorem gate_step_stable_witness:
  "(0::real) < 1 \<and> (0::real) \<le> 2 \<and> (0::real) \<le> 0 \<and> (0::real) \<le> 1
   \<and> (0::real) \<le> 1 / 2 \<and> (1::real) / 2 \<le> 1
   \<and> 0 \<le> gate_step 1 2 1 0 \<and> gate_step 1 2 1 0 \<le> 1
   \<and> min ((gate_step 1 2 1 ^^ 3) 0) (1 / 2) \<le> (gate_step 1 2 1 ^^ Suc 3) 0
   \<and> (gate_step 1 2 1 ^^ Suc 3) 0 \<le> max ((gate_step 1 2 1 ^^ 3) 0) (1 / 2)
   \<and> (\<lambda>k. (gate_step 1 2 1 ^^ k) 0) \<longlonglongrightarrow> 1 / 2
   \<and> gate_step 1 0 1 (1 / 3) = 1 / 3"
proof -
  have h: "(0::real) < 1" "(0::real) \<le> 2" "(0::real) \<le> 0" "(0::real) \<le> 1"
      "(0::real) \<le> 1 / 2" "(1::real) / 2 \<le> 1"
    by simp_all
  have h0: "(0::real) \<le> 0" "(0::real) \<le> 1 / 3" "(1::real) / 3 \<le> 1"
      "(0::real) \<le> 1 / 0" "(1::real) / 0 \<le> 1"
    by simp_all
  have pos: "(0::real) < 2" by simp
  note a = gate_step_stable [OF h, of 3]
  note b = gate_step_stable [OF h(1) h0, of 0]
  show ?thesis
    using h a b pos by simp
qed

section \<open>cells.py: assign\_depths and get\_cell\<close>

lemma cell_spec_no_depth:
  assumes "(name, spec) \<in> set cell_spec"
  shows "map_of spec ''depth'' = None"
  using assms by (auto simp: cell_spec_def)

lemma cell_spec_has_proto:
  assumes "(name, spec) \<in> set cell_spec"
  shows "\<exists>pfile. map_of spec ''proto'' = Some pfile"
  using assms by (auto simp: cell_spec_def)

lemma assign_depths_guard:
  assumes "map_of spec ''depth'' = None"
  shows "assign_depths fs proto spec protodir w = (Inr (), w)"
  using assms by (simp add: assign_depths_def Let_def)

text \<open>
  With a \<open>depth\<close> key and both file keys present the function does go on to read the
  depths file: the early return is the only thing that keeps the entries of
  \<open>cell_spec\<close> from it.
\<close>

lemma assign_depths_reads_when_depth_present:
  "files_read (snd (assign_depths Map.empty p
      [(''depth'', ''x''), (''depths'', ''a.depths''), (''levels'', ''a.levels'')]
      ''proto'' w))
   = files_read w @ [''proto/a.depths'']"
  by (simp add: assign_depths_def Let_def read_csv_to_dict_def path_join_def)

text \<open>
  Claim C10.  For every entry of \<open>cell_spec\<close>, the key \<open>depth\<close> is not defined, so
  \<open>assign_depths\<close> returns at its first guard: it raises nothing and leaves the world
  as it was (no compartment field changed, no file read).
\<close>

theorem assign_depths_cell_spec_noop:
  assumes "(name, spec) \<in> set cell_spec"
  shows "map_of spec ''depth'' = None
       \<and> assign_depths fs proto spec protodir w = (Inr (), w)
       \<and> comp_z (snd (assign_depths fs proto spec protodir w)) = comp_z w
       \<and> files_read (snd (assign_depths fs proto spec protodir w)) = files_read w"
  using cell_spec_no_depth [OF assms] assign_depths_guard [OF cell_spec_no_depth [OF assms]]
  by simp

theorem assign_depths_cell_spec_noop_witness:
  "(''NontuftedRS'', [(''proto'', ''NontuftedRS.p''), (''depths'', ''NontuftedRS.depths''),
                      (''levels'', ''NontuftedRS.levels'')]) \<in> set cell_spec
   \<and> assign_depths Map.empty ''/library/NontuftedRS''
        [(''proto'', ''NontuftedRS.p''), (''depths'', ''NontuftedRS.depths''),
         (''levels'', ''NontuftedRS.levels'')] ''proto''
        \<lparr>comp_z = Map.empty, files_read = [], init_channels_calls = 0, models_loaded = []\<rparr>
      = (Inr (), \<lparr>comp_z = Map.empty, files_read = [], init_channels_calls = 0,
                  models_loaded = []\<rparr>)"
proof -
  have h: "(''NontuftedRS'', [(''proto'', ''NontuftedRS.p''),
             (''depths'', ''NontuftedRS.depths''), (''levels'', ''NontuftedRS.levels'')])
           \<in> set cell_spec"
    by (simp add: cell_spec_def)
  show ?thesis
    using h assign_depths_cell_spec_noop [OF h] by simp
qed

text \<open>
  \<open>get_cell\<close> does not always return \<open>None\<close> when no prototype exists: on a spec
  without a \<open>proto\<close> key it raises KeyError after \<open>init_channels\<close>; on an entry of
  \<open>cell_spec\<close> whose model file is missing it raises from \<open>moose.loadModel\<close>; on a
  spec whose \<open>depth\<close>, \<open>depths\<close> and \<open>levels\<close> keys are all present it raises from
  \<open>assign_depths\<close>.
\<close>

theorem get_cell_raises_counterexample:
  "get_cell (\<lambda>n p w. None) loadModel_found Map.empty ''c'' [] ''/library'' ''proto''
     \<lparr>comp_z = Map.empty, files_read = [], init_channels_calls = 0, models_loaded = []\<rparr>
   = (Inl KeyError,
      \<lparr>comp_z = Map.empty, files_read = [], init_channels_calls = 1, models_loaded = []\<rparr>)
   \<and> get_cell (\<lambda>n p w. None) loadModel_missing Map.empty ''TCR''
        [(''proto'', ''TCR.p''), (''levels'', ''TCR.levels'')] ''/library'' ''proto''
        \<lparr>comp_z = Map.empty, files_read = [], init_channels_calls = 0, models_loaded = []\<rparr>
      = (Inl IOError,
         \<lparr>comp_z = Map.empty, files_read = [], init_channels_calls = 1, models_loaded = []\<rparr>)
   \<and> fst (get_cell (\<lambda>n p w. None) loadModel_found
             [''proto/c.depths'' \<mapsto> ([(0, 1)], [(0, 10)]),
              ''proto/c.levels'' \<mapsto> ([(0, 1)], [(0, 1)])]
             ''c''
             [(''proto'', ''c.p''), (''depth'', ''x''), (''depths'', ''c.depths''),
              (''levels'', ''c.levels'')]
             ''/library'' ''proto''
             \<lparr>comp_z = Map.empty, files_read = [], init_channels_calls = 0,
               models_loaded = []\<rparr>)
     = Inl TypeError"
  by (simp add: get_cell_def assign_depths_def Let_def read_csv_to_dict_def path_join_def
      loadModel_found_def loadModel_missing_def)

text \<open>
  Claim C9, as amended.  For every name and every spec that has a \<open>proto\<close> entry and
  no \<open>depth\<close> entry (every entry of \<open>cell_spec\<close> is such a spec): when a prototype of
  that name exists under the parent, \<open>get_cell\<close> returns it and changes nothing; when
  none exists, it calls \<open>init_channels\<close> and then \<open>moose.loadModel\<close> on
  \<open>os.path.join(protodir, spec['proto'])\<close> and \<open>parent/name\<close>; if the load succeeds,
  it runs \<open>assign_depths\<close> and returns \<open>None\<close>, the world being the one the load left;
  if the load raises, \<open>get_cell\<close> raises the same exception.
\<close>

theorem get_cell_result:
  assumes "map_of spec ''proto'' = Some pfile" and "map_of spec ''depth'' = None"
  shows "(get_proto name parent w = Some cell \<longrightarrow>
            get_cell get_proto loadModel fs name spec parent protodir w
            = (Inr (Some cell), w))
       \<and> (get_proto name parent w = None \<longrightarrow>
            loadModel (path_join protodir pfile) (parent @ ''/'' @ name)
              (w\<lparr>init_channels_calls := init_channels_calls w + 1\<rparr>) = (Inr proto, w2) \<longrightarrow>
            get_cell get_proto loadModel fs name spec parent protodir w = (Inr None, w2))
       \<and> (get_proto name parent w = None \<longrightarrow>
            loadModel (path_join protodir pfile) (parent @ ''/'' @ name)
              (w\<lparr>init_channels_calls := init_channels_calls w + 1\<rparr>) = (Inl e, w2) \<longrightarrow>
            get_cell get_proto loadModel fs name spec parent protodir w = (Inl e, w2))"
  using assms by (simp add: get_cell_def Let_def assign_depths_guard)

theorem get_cell_result_witness:
  "map_of [(''proto'', ''TCR.p''), (''levels'', ''TCR.levels'')] ''proto'' = Some ''TCR.p''
   \<and> map_of [(''proto'', ''TCR.p''), (''levels'', ''TCR.levels'')] ''depth'' = None
   \<and> get_cell (\<lambda>n p w. Some ''/library/TCR'') loadModel_found Map.empty ''TCR''
        [(''proto'', ''TCR.p''), (''levels'', ''TCR.levels'')] ''/library'' ''proto''
        \<lparr>comp_z = Map.empty, files_read = [], init_channels_calls = 0, models_loaded = []\<rparr>
      = (Inr (Some ''/library/TCR''),
         \<lparr>comp_z = Map.empty, files_read = [], init_channels_calls = 0, models_loaded = []\<rparr>)
   \<and> get_cell (\<lambda>n p w. None) loadModel_found Map.empty ''TCR''
        [(''proto'', ''TCR.p''), (''levels'', ''TCR.levels'')] ''/library'' ''proto''
        \<lparr>comp_z = Map.empty, files_read = [], init_channels_calls = 0, models_loaded = []\<rparr>
      = (Inr None,
         \<lparr>comp_z = Map.empty, files_read = [], init_channels_calls = 1,
           models_loaded = [(''proto/TCR.p'', ''/library/TCR'')]\<rparr>)
   \<and> get_cell (\<lambda>n p w. None) loadModel_missing Map.empty ''TCR''
        [(''proto'', ''TCR.p''), (''levels'', ''TCR.levels'')] ''/library'' ''proto''
        \<lparr>comp_z = Map.empty, files_read = [], init_channels_calls = 0, models_loaded = []\<rparr>
      = (Inl IOError,
         \<lparr>comp_z = Map.empty, files_read = [], init_channels_calls = 1, models_loaded = []\<rparr>)"
proof -
  let ?spec = "[(''proto'', ''TCR.p''), (''levels'', ''TCR.levels'')]"
  let ?w = "\<lparr>comp_z = Map.empty, files_read = [], init_channels_calls = 0,
              models_loaded = ([] :: (string \<times> string) list)\<rparr>"
  have h: "map_of ?spec ''proto'' = Some ''TCR.p''" "map_of ?spec ''depth'' = None"
    by simp_all
  note a = get_cell_result [OF h, where get_proto = "\<lambda>n p w. Some ''/library/TCR''"
      and name = "''TCR''" and parent = "''/library''" and w = ?w and cell = "''/library/TCR''"
      and loadModel = loadModel_found and fs = Map.empty and protodir = "''proto''"]
  note b = get_cell_result [OF h, where get_proto = "\<lambda>n p w. None"
      and name = "''TCR''" and parent = "''/library''" and w = ?w
      and loadModel = loadModel_found and fs = Map.empty and protodir = "''proto''"
      and proto = "''/library/TCR''"
      and ?w2.0 = "\<lparr>comp_z = Map.empty, files_read = [], init_channels_calls = 1,
                     models_loaded = [(''proto/TCR.p'', ''/library/TCR'')]\<rparr>"]
  note c = get_cell_result [OF h, where get_proto = "\<lambda>n p w. None"
      and name = "''TCR''" and parent = "''/library''" and w = ?w
      and loadModel = loadModel_missing and fs = Map.empty and protodir = "''proto''"
      and e = IOError
      and ?w2.0 = "\<lparr>comp_z = Map.empty, files_read = [], init_channels_calls = 1,
                     models_loaded = []\<rparr>"]
  show ?thesis
    using h a b c by (simp add: path_join_def loadModel_found_def loadModel_missing_def)
qed

end
